theory Spec2Isabelle
  imports Complex_Main "HOL-Library.AList"
begin

section \<open>Values\<close>

text \<open>
  The value of a number: a real, or one of the two infinities \<^verbatim>\<open>np.Infinity\<close> and
  \<^verbatim>\<open>-np.Infinity\<close> that the bounding-box loops start from. Python compares an int
  with a float by value, and \<^verbatim>\<open>min\<close> and \<^verbatim>\<open>max\<close> only compare and select, so
  they are modelled on the values. NaN is not a value of the model.
\<close>

datatype num = NInf | Fin real | PInf

instantiation num :: linorder
begin

fun less_eq_num :: "num \<Rightarrow> num \<Rightarrow> bool" where
  "less_eq_num NInf _ = True"
| "less_eq_num _ PInf = True"
| "less_eq_num (Fin a) (Fin b) = (a \<le> b)"
| "less_eq_num _ _ = False"

definition less_num :: "num \<Rightarrow> num \<Rightarrow> bool" where
  "less_num x y = (x \<le> y \<and> \<not> y \<le> x)"

instance
proof
  fix x y z :: num
  show "(x < y) = (x \<le> y \<and> \<not> y \<le> x)"
    by (simp add: less_num_def)
  show "x \<le> x"
    by (cases x) simp_all
  show "x \<le> y \<Longrightarrow> y \<le> z \<Longrightarrow> x \<le> z"
    by (cases x; cases y; cases z) simp_all
  show "x \<le> y \<Longrightarrow> y \<le> x \<Longrightarrow> x = y"
    by (cases x; cases y) simp_all
  show "x \<le> y \<or> y \<le> x"
    by (cases x; cases y) auto
qed

end

text \<open>
  The value \<^verbatim>\<open>json.load\<close> returns: \<^verbatim>\<open>None\<close>, a bool, an int, a float, a string,
  a list or a dict with string keys. \<open>JInt\<close> is an int of Python (of any size), \<open>JNum\<close>
  a float, given by its value. A dict is the list of its items. Where the code computes a
  number (the entries of a bbox), the model gives its value, as a \<open>JNum\<close>.
\<close>

datatype json =
    JNull
  | JBool bool
  | JInt int
  | JNum num
  | JStr string
  | JArr "json list"
  | JObj "(string \<times> json) list"

text \<open>
  The exceptions of Python that the code can raise. \<open>NotModelled\<close> is not one of them:
  it is the result of the model on an input for which it does not say what Python 2 or
  numpy do (the order of Python 2 between values of unlike kinds; what numpy makes of
  values that are not all numbers or all strings, of integers outside 64 bits, or of
  lists of unequal lengths).
\<close>

datatype error =
  KeyError json | IndexError | TypeError | ValueError | AttributeError | NotModelled

section \<open>Python primitives\<close>

text \<open>An exception ends the computation: the first \<open>Inl\<close> is the result.\<close>

definition bindE :: "error + 'a \<Rightarrow> ('a \<Rightarrow> error + 'b) \<Rightarrow> error + 'b" where
  "bindE m f = (case m of Inl e \<Rightarrow> Inl e | Inr x \<Rightarrow> f x)"

text \<open>A list comprehension \<^verbatim>\<open>[f(x) for x in xs]\<close>, evaluated left to right.\<close>

fun mapE :: "('a \<Rightarrow> error + 'b) \<Rightarrow> 'a list \<Rightarrow> error + 'b list" where
  "mapE f [] = Inr []"
| "mapE f (x # xs) = bindE (f x) (\<lambda>y. bindE (mapE f xs) (\<lambda>ys. Inr (y # ys)))"

text \<open>
  \<^verbatim>\<open>for c in v\<close>: a list gives its elements, a string its characters, a dict its
  keys; nothing else is iterable.
\<close>

fun py_iter :: "json \<Rightarrow> error + json list" where
  "py_iter (JArr xs) = Inr xs"
| "py_iter (JStr s) = Inr (map (\<lambda>c. JStr [c]) s)"
| "py_iter (JObj kvs) = Inr (map (\<lambda>kv. JStr (fst kv)) kvs)"
| "py_iter _ = Inl TypeError"

text \<open>
  \<^verbatim>\<open>c[0]\<close> and \<^verbatim>\<open>c[1]\<close>: the subscript by a non-negative integer literal. A dict of
  \<^verbatim>\<open>json.load\<close> has string keys only, so an integer is never one of its keys.
\<close>

fun py_index :: "json \<Rightarrow> nat \<Rightarrow> error + json" where
  "py_index (JArr xs) i = (if i < length xs then Inr (xs ! i) else Inl IndexError)"
| "py_index (JStr s) i = (if i < length s then Inr (JStr [s ! i]) else Inl IndexError)"
| "py_index (JObj kvs) i = Inl (KeyError (JInt (int i)))"
| "py_index _ i = Inl TypeError"

text \<open>
  \<^verbatim>\<open>v[k]\<close> where \<open>k\<close> is a string or \<^verbatim>\<open>None\<close> (the key \<open>None\<close>): only a dict
  accepts such a subscript.
\<close>

fun py_get :: "json \<Rightarrow> string option \<Rightarrow> error + json" where
  "py_get (JObj kvs) (Some k) =
     (case map_of kvs k of None \<Rightarrow> Inl (KeyError (JStr k)) | Some v \<Rightarrow> Inr v)"
| "py_get (JObj kvs) None = Inl (KeyError JNull)"
| "py_get _ _ = Inl TypeError"

text \<open>
  \<^verbatim>\<open>min\<close> and \<^verbatim>\<open>max\<close> of a list: \<^verbatim>\<open>ValueError\<close> on the empty list. The values
  compared are numbers, ints and floats, by their values; Python 2 orders values of any
  kinds without an exception, which is not modelled for a value that is not a number.
\<close>

fun num_of :: "json \<Rightarrow> error + num" where
  "num_of (JInt i) = Inr (Fin (real_of_int i))"
| "num_of (JNum n) = Inr n"
| "num_of _ = Inl NotModelled"

definition py_min :: "json list \<Rightarrow> error + num" where
  "py_min xs =
     (if xs = [] then Inl ValueError
      else bindE (mapE num_of xs) (\<lambda>ns. Inr (fold min (tl ns) (hd ns))))"

definition py_max :: "json list \<Rightarrow> error + num" where
  "py_max xs =
     (if xs = [] then Inl ValueError
      else bindE (mapE num_of xs) (\<lambda>ns. Inr (fold max (tl ns) (hd ns))))"

section \<open>Geometries\<close>

type_synonym box = "num \<times> num \<times> num \<times> num"

definition list4 :: "box \<Rightarrow> json" where
  "list4 q = (case q of (l, b, r, t) \<Rightarrow> JArr [JNum l, JNum b, JNum r, JNum t])"

definition ring_bbox :: "json \<Rightarrow> error + box" where
  "ring_bbox ring =
     bindE (py_iter ring) (\<lambda>cs.
     bindE (mapE (\<lambda>c. py_index c 0) cs) (\<lambda>xs.
     bindE (mapE (\<lambda>c. py_index c 1) cs) (\<lambda>ys.
     bindE (py_min xs) (\<lambda>l.
     bindE (py_min ys) (\<lambda>b.
     bindE (py_max xs) (\<lambda>r.
     bindE (py_max ys) (\<lambda>t. Inr (l, b, r, t))))))))"

text \<open>
  An instance of a subclass of \<^verbatim>\<open>Geometry\<close>. \<open>bboxes\<close> is the attribute that only
  the \<^verbatim>\<open>build_bbox\<close> of Polygon and MultiPolygon assigns; \<open>None\<close> is its absence.
\<close>

record geometry =
  coordinates :: json
  bbox :: json
  bboxes :: "json option"
  type :: string

definition sentinel :: box where
  "sentinel = (PInf, PInf, NInf, NInf)"

text \<open>
  The body of the loop over rings, the same in \<^verbatim>\<open>Polygon.build_bbox\<close> and in the
  inner loop of \<^verbatim>\<open>MultiPolygon.build_bbox\<close>: the state is the box so far and the
  list of ring boxes appended to.
\<close>

fun rings_loop :: "json list \<Rightarrow> box \<times> json list \<Rightarrow> error + box \<times> json list" where
  "rings_loop [] acc = Inr acc"
| "rings_loop (ring # rings) ((x0, y0, x1, y1), bbs) =
     bindE (ring_bbox ring) (\<lambda>(l, b, r, t).
       rings_loop rings
         ((min l x0, min b y0, max r x1, max t y1), bbs @ [list4 (l, b, r, t)]))"

definition Polygon_build_bbox :: "json \<Rightarrow> error + json \<times> json" where
  "Polygon_build_bbox coords =
     bindE (py_iter coords) (\<lambda>rings.
     bindE (rings_loop rings (sentinel, [])) (\<lambda>(q, bbs). Inr (list4 q, JArr bbs)))"

definition Polygon :: "json \<Rightarrow> error + geometry" where
  "Polygon coords =
     bindE (Polygon_build_bbox coords) (\<lambda>(bb, bbs).
       Inr \<lparr>coordinates = coords, bbox = bb, bboxes = Some bbs, type = ''Polygon''\<rparr>)"

fun polygons_loop :: "json list \<Rightarrow> box \<times> json list \<Rightarrow> error + box \<times> json list" where
  "polygons_loop [] acc = Inr acc"
| "polygons_loop (polygon # polygons) (q, bbs) =
     bindE (py_iter polygon) (\<lambda>rings.
     bindE (rings_loop rings (q, [])) (\<lambda>(q', pbbox).
       polygons_loop polygons (q', bbs @ [JArr pbbox])))"

definition MultiPolygon_build_bbox :: "json \<Rightarrow> error + json \<times> json" where
  "MultiPolygon_build_bbox coords =
     bindE (py_iter coords) (\<lambda>polygons.
     bindE (polygons_loop polygons (sentinel, [])) (\<lambda>(q, bbs). Inr (list4 q, JArr bbs)))"

definition MultiPolygon :: "json \<Rightarrow> error + geometry" where
  "MultiPolygon coords =
     bindE (MultiPolygon_build_bbox coords) (\<lambda>(bb, bbs).
       Inr \<lparr>coordinates = coords, bbox = bb, bboxes = Some bbs, type = ''MultiPolygon''\<rparr>)"

definition LineString_build_bbox :: "json \<Rightarrow> error + box" where
  "LineString_build_bbox coords = ring_bbox coords"

definition LineString :: "json \<Rightarrow> error + geometry" where
  "LineString coords =
     bindE (LineString_build_bbox coords) (\<lambda>q.
       Inr \<lparr>coordinates = coords, bbox = list4 q, bboxes = None, type = ''LineString''\<rparr>)"

text \<open>
  \<^verbatim>\<open>l, b, r, t = LineString(lineString).bbox\<close>: the box of the temporary LineString
  is what its \<^verbatim>\<open>build_bbox\<close> returned.
\<close>

fun lines_loop :: "json list \<Rightarrow> box \<Rightarrow> error + box" where
  "lines_loop [] acc = Inr acc"
| "lines_loop (lineString # rest) (x0, y0, x1, y1) =
     bindE (LineString_build_bbox lineString) (\<lambda>(l, b, r, t).
       lines_loop rest (min l x0, min b y0, max r x1, max t y1))"

definition MultiLineString_build_bbox :: "json \<Rightarrow> error + json" where
  "MultiLineString_build_bbox coords =
     bindE (py_iter coords) (\<lambda>ls.
     bindE (lines_loop ls sentinel) (\<lambda>q. Inr (list4 q)))"

definition MultiLineString :: "json \<Rightarrow> error + geometry" where
  "MultiLineString coords =
     bindE (MultiLineString_build_bbox coords) (\<lambda>bb.
       Inr \<lparr>coordinates = coords, bbox = bb, bboxes = None, type = ''MultiLineString''\<rparr>)"

definition Point :: "json \<Rightarrow> error + geometry" where
  "Point coords =
     Inr \<lparr>coordinates = coords, bbox = coords, bboxes = None, type = ''Point''\<rparr>"

section \<open>numpy\<close>

text \<open>
  numpy is not part of the repository. \<^verbatim>\<open>np.array\<close> stores the numbers of a nested
  list in one element type: 64-bit integers when every number is an int that fits, and
  otherwise 64-bit floats, to which Python converts an int by rounding to the nearest
  float (to the even significand on a tie). \<open>round53\<close> rounds a natural number to 53
  significant bits (\<open>bits\<close> is the number of its binary digits), \<open>to_float64\<close> is the
  float of an int; a float is stored as it is.
\<close>

definition int64 :: "int \<Rightarrow> bool" where
  "int64 i = (- (2 ^ 63) \<le> i \<and> i < 2 ^ 63)"

fun bits :: "nat \<Rightarrow> nat" where
  "bits n = (if n = 0 then 0 else Suc (bits (n div 2)))"

declare bits.simps [simp del]

definition round53 :: "nat \<Rightarrow> nat" where
  "round53 a =
     (let e = bits a - 53;
          q = a div 2 ^ e;
          r = a mod 2 ^ e;
          m = (if 2 ^ e < 2 * r \<or> (2 * r = 2 ^ e \<and> odd q) then q + 1 else q)
      in m * 2 ^ e)"

definition to_float64 :: "int \<Rightarrow> real" where
  "to_float64 i = (if i < 0 then - real (round53 (nat (- i))) else real (round53 (nat i)))"

fun is_int64 :: "json \<Rightarrow> bool" where
  "is_int64 (JInt i) = int64 i"
| "is_int64 _ = False"

fun float64_of :: "json \<Rightarrow> error + num" where
  "float64_of (JInt i) = (if int64 i then Inr (Fin (to_float64 i)) else Inl NotModelled)"
| "float64_of (JNum n) = Inr n"
| "float64_of _ = Inl NotModelled"

text \<open>
  \<^verbatim>\<open>np.array([point for point in self.coordinates])\<close> for a sequence of points that
  are lists of numbers of one length: the matrix with one row per point, in the element
  type that the numbers of all rows give. The source's comment assumes the equal length.
\<close>

fun elements :: "json \<Rightarrow> json list option" where
  "elements (JArr vs) = Some vs"
| "elements _ = None"

definition np_array_points :: "json list \<Rightarrow> error + num list list" where
  "np_array_points points =
     (case those (map elements points) of
        None \<Rightarrow> Inl NotModelled
      | Some rows \<Rightarrow>
          if \<forall>row \<in> set rows. length row = length (hd rows)
          then if list_all is_int64 (concat rows)
               then mapE (mapE num_of) rows
               else mapE (mapE float64_of) rows
          else Inl NotModelled)"

text \<open>
  \<^verbatim>\<open>m.min(axis=0).tolist()\<close> and \<^verbatim>\<open>m.max(axis=0).tolist()\<close>: the minimum and the
  maximum of every column; numpy raises \<^verbatim>\<open>ValueError\<close> when there is no row.
\<close>

definition np_min_axis0 :: "num list list \<Rightarrow> error + num list" where
  "np_min_axis0 m = (if m = [] then Inl ValueError else Inr (fold (map2 min) (tl m) (hd m)))"

definition np_max_axis0 :: "num list list \<Rightarrow> error + num list" where
  "np_max_axis0 m = (if m = [] then Inl ValueError else Inr (fold (map2 max) (tl m) (hd m)))"

text \<open>
  \<^verbatim>\<open>np.array\<close> of a list of rows, as \<^verbatim>\<open>getPropertiesAsArray\<close> calls it. A value
  that is a list adds a dimension to the array, when all lists at one depth have one
  length. \<open>shape0\<close> is \<^verbatim>\<open>shape[0]\<close>, the number of rows, and \<open>items\<close> are the entries
  of the array in the order of \<^verbatim>\<open>flatten()\<close>, as \<^verbatim>\<open>tolist()\<close> returns them: the
  values of the numbers in the element type of the array, or strings when every entry is
  a string (numpy drops NUL characters at the end of a string: a string with a NUL is not
  modelled).
\<close>

datatype item = Num num | Str string

record ndarray =
  shape0 :: nat
  items :: "item list"

fun np_shape :: "json \<Rightarrow> nat list option" where
  "np_shape (JArr vs) =
     (case map np_shape vs of
        [] \<Rightarrow> Some [0]
      | s # ss \<Rightarrow>
          (case s of
             None \<Rightarrow> None
           | Some sh \<Rightarrow> if \<forall>t \<in> set ss. t = Some sh then Some (length vs # sh) else None))"
| "np_shape _ = Some []"

fun np_leaves :: "json \<Rightarrow> json list" where
  "np_leaves (JArr vs) = concat (map np_leaves vs)"
| "np_leaves v = [v]"

fun text_of :: "json \<Rightarrow> string option" where
  "text_of (JStr s) = (if CHR 0x00 \<in> set s then None else Some s)"
| "text_of _ = None"

definition np_items :: "json list \<Rightarrow> error + item list" where
  "np_items vs =
     (if list_all is_int64 vs then bindE (mapE num_of vs) (\<lambda>ns. Inr (map Num ns))
      else case those (map text_of vs) of
             Some ts \<Rightarrow> Inr (map Str ts)
           | None \<Rightarrow> bindE (mapE float64_of vs) (\<lambda>ns. Inr (map Num ns)))"

definition np_array :: "json list list \<Rightarrow> error + ndarray" where
  "np_array rows =
     (case np_shape (JArr (map JArr rows)) of
        None \<Rightarrow> Inl NotModelled
      | Some sh \<Rightarrow>
          bindE (np_items (np_leaves (JArr (map JArr rows)))) (\<lambda>xs.
            Inr \<lparr>shape0 = length rows, items = xs\<rparr>))"

section \<open>MultiPoint and the dispatcher\<close>

definition MultiPoint_build_bbox :: "json \<Rightarrow> error + json" where
  "MultiPoint_build_bbox coords =
     bindE (py_iter coords) (\<lambda>points.
     bindE (np_array_points points) (\<lambda>m.
     bindE (np_min_axis0 m) (\<lambda>minc.
     bindE (np_max_axis0 m) (\<lambda>maxc. Inr (JArr (map JNum (minc @ maxc)))))))"

definition MultiPoint :: "json \<Rightarrow> error + geometry" where
  "MultiPoint coords =
     bindE (MultiPoint_build_bbox coords) (\<lambda>bb.
       Inr \<lparr>coordinates = coords, bbox = bb, bboxes = None, type = ''MultiPoint''\<rparr>)"

definition geometryDispatcher :: "string \<rightharpoonup> (json \<Rightarrow> error + geometry)" where
  "geometryDispatcher =
     [''Point'' \<mapsto> Point,
      ''Polygon'' \<mapsto> Polygon,
      ''LineString'' \<mapsto> LineString,
      ''MultiPoint'' \<mapsto> MultiPoint,
      ''MultiPolygon'' \<mapsto> MultiPolygon,
      ''MultiLineString'' \<mapsto> MultiLineString]"

text \<open>
  \<^verbatim>\<open>geometryDispatcher[ft]\<close>: a list or a dict is unhashable (\<^verbatim>\<open>TypeError\<close>); any
  other value that is not one of the six keys is a \<^verbatim>\<open>KeyError\<close> on that value.
\<close>

fun dispatch :: "json \<Rightarrow> error + (json \<Rightarrow> error + geometry)" where
  "dispatch (JStr s) =
     (case geometryDispatcher s of None \<Rightarrow> Inl (KeyError (JStr s)) | Some cls \<Rightarrow> Inr cls)"
| "dispatch (JArr xs) = Inl TypeError"
| "dispatch (JObj kvs) = Inl TypeError"
| "dispatch ft = Inl (KeyError ft)"

section \<open>Feature collections\<close>

text \<open>
  A feature is the dict with the keys \<^verbatim>\<open>'geometry'\<close> and \<^verbatim>\<open>'properties'\<close> that
  the constructor builds for every record.
\<close>

record feature =
  geometry :: geometry
  properties :: json

text \<open>
  \<open>features\<close> is the dict from the integer id to the feature, as the list of its items
  in insertion order. The constructor inserts the keys \<open>0, 1, 2, ...\<close> in this order,
  which is also the order in which a loop over the dict meets them.
  \<open>private_idVariable\<close> is the attribute \<^verbatim>\<open>__idVariable\<close>:
  \<open>None\<close> while nothing has been assigned to it, \<open>Some None\<close> when it holds
  \<^verbatim>\<open>None\<close>, \<open>Some (Some k)\<close> when it holds the property name \<open>k\<close>.
\<close>

record FeatureCollection =
  n_features :: nat
  features :: "(nat \<times> feature) list"
  private_idVariable :: "string option option"

text \<open>\<^verbatim>\<open>self.features[i]\<close>\<close>

definition features_get :: "FeatureCollection \<Rightarrow> nat \<Rightarrow> error + feature" where
  "features_get self i =
     (case map_of (features self) i of
        None \<Rightarrow> Inl (KeyError (JInt (int i)))
      | Some f \<Rightarrow> Inr f)"

text \<open>
  The loop of the constructor over \<^verbatim>\<open>enumerate(data['features'])\<close>. The state is the
  index \<open>i\<close> of \<^verbatim>\<open>enumerate\<close>, the counter \<^verbatim>\<open>self.n_features\<close> and the dict
  \<^verbatim>\<open>features\<close>; \<^verbatim>\<open>features[i] = f\<close> is the update of a dict.
\<close>

fun init_loop ::
  "json list \<Rightarrow> nat \<Rightarrow> nat \<times> (nat \<times> feature) list \<Rightarrow> error + nat \<times> (nat \<times> feature) list"
where
  "init_loop [] i acc = Inr acc"
| "init_loop (feature # rest) i (n, fs) =
     bindE (py_get feature (Some ''geometry'')) (\<lambda>g.
     bindE (py_get g (Some ''type'')) (\<lambda>ft.
     bindE (py_get feature (Some ''geometry'')) (\<lambda>g'.
     bindE (py_get g' (Some ''coordinates'')) (\<lambda>fc.
     bindE (dispatch ft) (\<lambda>cls.
     bindE (cls fc) (\<lambda>geom.
     bindE (py_get feature (Some ''properties'')) (\<lambda>props.
       init_loop rest (Suc i)
         (Suc n, AList.update i \<lparr>geometry = geom, properties = props\<rparr> fs))))))))"

definition getPropertiesAsLists ::
  "FeatureCollection \<Rightarrow> string option list \<Rightarrow> error + json list list" where
  "getPropertiesAsLists self props =
     mapE (\<lambda>i. bindE (features_get self i) (\<lambda>ft.
             mapE (\<lambda>p. py_get (properties ft) p) props))
       [0 ..< n_features self]"

definition getPropertiesAsArray ::
  "FeatureCollection \<Rightarrow> string option list \<Rightarrow> error + ndarray" where
  "getPropertiesAsArray self props = bindE (getPropertiesAsLists self props) np_array"

text \<open>
  \<^verbatim>\<open>np.unique(values).shape[0] == values.shape[0]\<close>: \<^verbatim>\<open>np.unique\<close> flattens the
  array and keeps one copy of every entry; \<^verbatim>\<open>values.shape[0]\<close> is the number of rows.
\<close>

definition is_unique :: "ndarray \<Rightarrow> bool" where
  "is_unique values =
     (if length (remdups (items values)) = shape0 values then True else False)"

definition warning_msg :: "string \<Rightarrow> string" where
  "warning_msg p = (p @ '' is not uniquely valued. '') @ '' Cannot be used as idVariable''"

text \<open>
  The setter of \<^verbatim>\<open>idVariable\<close>. The result is the object after the assignment and the
  warnings that \<^verbatim>\<open>warnings.warn\<close> was called with; an exception leaves the object as
  it was, since no attribute is assigned before it.
\<close>

definition idVariable_setter ::
  "FeatureCollection \<Rightarrow> string option \<Rightarrow> error + FeatureCollection \<times> string list" where
  "idVariable_setter self property =
     (case property of
        None \<Rightarrow> Inr (self\<lparr>private_idVariable := Some property\<rparr>, [])
      | Some p \<Rightarrow>
          bindE (getPropertiesAsArray self [property]) (\<lambda>values.
            if is_unique values
            then Inr (self\<lparr>private_idVariable := Some property\<rparr>, [])
            else Inr (self, [warning_msg p])))"

text \<open>The getter: reading an attribute that was never assigned is an \<^verbatim>\<open>AttributeError\<close>.\<close>

definition idVariable_getter :: "FeatureCollection \<Rightarrow> error + string option" where
  "idVariable_getter self =
     (case private_idVariable self of None \<Rightarrow> Inl AttributeError | Some v \<Rightarrow> Inr v)"

text \<open>
  The constructor, from the value \<open>data\<close> that \<^verbatim>\<open>json.load\<close> returned for the file
  (opening and parsing the file are outside the model). An exception leaves the caller
  without an object: the result is then the exception alone.
\<close>

definition FeatureCollection_init ::
  "json \<Rightarrow> string option \<Rightarrow> error + FeatureCollection \<times> string list" where
  "FeatureCollection_init data idVariable =
     bindE (py_get data (Some ''features'')) (\<lambda>fs.
     bindE (py_iter fs) (\<lambda>recs.
     bindE (init_loop recs 0 (0, [])) (\<lambda>(n, features).
       idVariable_setter
         \<lparr>n_features = n, features = features, private_idVariable = None\<rparr> idVariable)))"

definition getIdVariableOrder :: "FeatureCollection \<Rightarrow> error + ndarray" where
  "getIdVariableOrder self =
     bindE (idVariable_getter self) (\<lambda>v. getPropertiesAsArray self [v])"

text \<open>
  The \<^verbatim>\<open>==\<close> of Python between an entry \<open>x\<close> of the list that \<^verbatim>\<open>tolist()\<close>
  returns and a value \<open>v\<close>: numbers are equal when their values are, where a bool
  counts as the int 1 or 0, and strings when they are the same; \<open>x == v\<close> holds when
  \<open>py_value v = Some x\<close>.
\<close>

fun py_value :: "json \<Rightarrow> item option" where
  "py_value (JInt i) = Some (Num (Fin (real_of_int i)))"
| "py_value (JNum n) = Some (Num n)"
| "py_value (JBool b) = Some (Num (Fin (if b then 1 else 0)))"
| "py_value (JStr s) = Some (Str s)"
| "py_value _ = None"

text \<open>\<^verbatim>\<open>idOrder.index(v)\<close>: the first position of \<open>v\<close>, \<^verbatim>\<open>ValueError\<close> if there is none.\<close>

fun py_list_index :: "item list \<Rightarrow> json \<Rightarrow> error + nat" where
  "py_list_index [] v = Inl ValueError"
| "py_list_index (x # xs) v =
     (if py_value v = Some x then Inr 0 else bindE (py_list_index xs v) (\<lambda>i. Inr (Suc i)))"

text \<open>
  \<^verbatim>\<open>getFeatureIds\<close> returns its result and the object as the call leaves it.
  \<^verbatim>\<open>flatten().tolist()\<close> is the list of the entries of the array.
\<close>

definition getFeatureIds ::
  "FeatureCollection \<Rightarrow> json list \<Rightarrow> (error + nat list) \<times> FeatureCollection" where
  "getFeatureIds self args =
     (bindE (getIdVariableOrder self) (\<lambda>a.
        mapE (\<lambda>v. py_list_index (items a) v) args),
      self)"

text \<open>
  \<^verbatim>\<open>if args:\<close> holds for a list that is not empty; \<open>None\<close> is the omitted argument.
  The generator that is returned is modelled by the list of what it yields.
\<close>

definition select_ids :: "FeatureCollection \<Rightarrow> json list option \<Rightarrow> error + nat list" where
  "select_ids self args =
     (case args of
        None \<Rightarrow> Inr [0 ..< n_features self]
      | Some vs \<Rightarrow>
          if vs \<noteq> [] then fst (getFeatureIds self vs) else Inr [0 ..< n_features self])"

definition getFeatures :: "FeatureCollection \<Rightarrow> json list option \<Rightarrow> error + feature list" where
  "getFeatures self args =
     bindE (select_ids self args) (\<lambda>ids. mapE (\<lambda>i. features_get self i) ids)"

definition getGeometries :: "FeatureCollection \<Rightarrow> json list option \<Rightarrow> error + geometry list" where
  "getGeometries self args =
     bindE (select_ids self args) (\<lambda>ids.
       mapE (\<lambda>i. bindE (features_get self i) (\<lambda>f. Inr (geometry f))) ids)"

text \<open>
  \<^verbatim>\<open>saveAsGeoJson\<close>: the dict \<open>d\<close> that is handed to \<^verbatim>\<open>json.dump\<close> (writing the
  file is outside the model). The loop runs over the keys of \<^verbatim>\<open>self.features\<close> and
  reads every feature back by its key.
\<close>

definition saveAsGeoJson :: "FeatureCollection \<Rightarrow> error + json" where
  "saveAsGeoJson self =
     bindE (mapE (\<lambda>fi. bindE (features_get self fi) (\<lambda>feature.
                    Inr (JObj [(''type'', JStr ''Feature''),
                               (''geometry'',
                                  JObj [(''type'', JStr (type (geometry feature))),
                                        (''coordinates'', coordinates (geometry feature))]),
                               (''properties'', properties feature)])))
              (map fst (features self))) (\<lambda>fs.
       Inr (JObj [(''type'', JStr ''FeatureCollection''), (''features'', JArr fs)]))"

text \<open>
  The collections a program can hold: the ones the constructor returned, and what the
  setter of \<^verbatim>\<open>idVariable\<close> made of them. The class has no other method that
  assigns to the object.
\<close>

inductive reachable :: "FeatureCollection \<Rightarrow> bool" where
  constructed: "FeatureCollection_init data idVariable = Inr (fc, ws) \<Longrightarrow> reachable fc"
| assigned: "reachable fc \<Longrightarrow> idVariable_setter fc property = Inr (fc', ws) \<Longrightarrow> reachable fc'"

section \<open>Scenarios\<close>

text \<open>
  Two inputs of Point features with a property \<^verbatim>\<open>id\<close>: three features with the
  values 10, 20, 30, and two features with the value 5 twice; and the collections the
  constructor builds from them, up to the attribute \<^verbatim>\<open>__idVariable\<close>.
\<close>

definition point_record :: "real \<Rightarrow> real \<Rightarrow> json \<Rightarrow> json" where
  "point_record x y v =
     JObj [(''type'', JStr ''Feature''),
           (''geometry'', JObj [(''type'', JStr ''Point''),
                                (''coordinates'', JArr [JNum (Fin x), JNum (Fin y)])]),
           (''properties'', JObj [(''id'', v)])]"

definition point_feature :: "real \<Rightarrow> real \<Rightarrow> json \<Rightarrow> feature" where
  "point_feature x y v =
     \<lparr>geometry = \<lparr>coordinates = JArr [JNum (Fin x), JNum (Fin y)],
                  bbox = JArr [JNum (Fin x), JNum (Fin y)], bboxes = None, type = ''Point''\<rparr>,
      properties = JObj [(''id'', v)]\<rparr>"

definition three_points :: json where
  "three_points =
     JObj [(''type'', JStr ''FeatureCollection''),
           (''features'', JArr [point_record 0 0 (JNum (Fin 10)),
                                point_record 1 1 (JNum (Fin 20)),
                                point_record 2 2 (JNum (Fin 30))])]"

definition three_points_fc :: "string option option \<Rightarrow> FeatureCollection" where
  "three_points_fc a =
     \<lparr>n_features = 3,
      features = [(0, point_feature 0 0 (JNum (Fin 10))),
                  (1, point_feature 1 1 (JNum (Fin 20))),
                  (2, point_feature 2 2 (JNum (Fin 30)))],
      private_idVariable = a\<rparr>"

definition two_points :: json where
  "two_points =
     JObj [(''type'', JStr ''FeatureCollection''),
           (''features'', JArr [point_record 0 0 (JNum (Fin 5)),
                                point_record 1 1 (JNum (Fin 5))])]"

definition two_points_fc :: "string option option \<Rightarrow> FeatureCollection" where
  "two_points_fc a =
     \<lparr>n_features = 2,
      features = [(0, point_feature 0 0 (JNum (Fin 5))),
                  (1, point_feature 1 1 (JNum (Fin 5)))],
      private_idVariable = a\<rparr>"

text \<open>
  Two inputs on which numpy changes the column of the property \<^verbatim>\<open>id\<close>: two features
  whose value is the same list \<^verbatim>\<open>[1, 2]\<close>, and two features with the int
  \<open>2\<^sup>5\<^sup>3 + 1\<close> and the float \<open>0.5\<close>.
\<close>

definition two_lists :: json where
  "two_lists =
     JObj [(''type'', JStr ''FeatureCollection''),
           (''features'', JArr [point_record 0 0 (JArr [JInt 1, JInt 2]),
                                point_record 1 1 (JArr [JInt 1, JInt 2])])]"

definition two_lists_fc :: "string option option \<Rightarrow> FeatureCollection" where
  "two_lists_fc a =
     \<lparr>n_features = 2,
      features = [(0, point_feature 0 0 (JArr [JInt 1, JInt 2])),
                  (1, point_feature 1 1 (JArr [JInt 1, JInt 2]))],
      private_idVariable = a\<rparr>"

definition big_and_half :: json where
  "big_and_half =
     JObj [(''type'', JStr ''FeatureCollection''),
           (''features'', JArr [point_record 0 0 (JInt 9007199254740993),
                                point_record 1 1 (JNum (Fin (1 / 2)))])]"

definition big_and_half_fc :: "string option option \<Rightarrow> FeatureCollection" where
  "big_and_half_fc a =
     \<lparr>n_features = 2,
      features = [(0, point_feature 0 0 (JInt 9007199254740993)),
                  (1, point_feature 1 1 (JNum (Fin (1 / 2))))],
      private_idVariable = a\<rparr>"

section \<open>Boxes and positions\<close>

text \<open>
  The components of a box \<open>(minX, minY, maxX, maxY)\<close>, the step that the loops of the
  \<^verbatim>\<open>build_bbox\<close> methods take with the box of a ring, and the componentwise union of
  boxes in the spec's words: the minimum of the minima and the maximum of the maxima,
  over the boxes and the sentinel the reduction starts from.
\<close>

definition box_l :: "box \<Rightarrow> num" where "box_l q = fst q"
definition box_b :: "box \<Rightarrow> num" where "box_b q = fst (snd q)"
definition box_r :: "box \<Rightarrow> num" where "box_r q = fst (snd (snd q))"
definition box_t :: "box \<Rightarrow> num" where "box_t q = snd (snd (snd q))"

definition join :: "box \<Rightarrow> box \<Rightarrow> box" where
  "join p q = (min (box_l p) (box_l q), min (box_b p) (box_b q),
               max (box_r p) (box_r q), max (box_t p) (box_t q))"






text \<open>The payload of a sequence of coordinate pairs.\<close>

definition ring_of :: "(num \<times> num) list \<Rightarrow> json" where
  "ring_of ps = JArr (map (\<lambda>p. JArr [JNum (fst p), JNum (snd p)]) ps)"

text \<open>Payloads for the scenarios of the bounding boxes.\<close>

definition pos :: "real \<Rightarrow> real \<Rightarrow> json" where
  "pos x y = JArr [JNum (Fin x), JNum (Fin y)]"

definition square_with_hole :: json where
  "square_with_hole =
     JArr [JArr [pos 0 0, pos 4 0, pos 4 3, pos 0 3, pos 0 0],
           JArr [pos 1 1, pos 2 1, pos 2 2, pos 1 1]]"


section \<open>Values that numpy keeps\<close>



fun exact_number :: "json \<Rightarrow> bool" where
  "exact_number (JInt i) = (int64 i \<and> to_float64 i = real_of_int i)"
| "exact_number (JNum n) = True"
| "exact_number _ = False"







text \<open>
  Inputs with a geometry type tag outside the six: after a Point, and after a LineString
  with an empty coordinate sequence.
\<close>

definition line_record :: "json \<Rightarrow> json" where
  "line_record coords =
     JObj [(''type'', JStr ''Feature''),
           (''geometry'', JObj [(''type'', JStr ''LineString''), (''coordinates'', coords)]),
           (''properties'', JObj [])]"

definition circle_record :: json where
  "circle_record =
     JObj [(''type'', JStr ''Feature''),
           (''geometry'', JObj [(''type'', JStr ''Circle''),
                                (''coordinates'', JArr [JNum (Fin 0), JNum (Fin 0)])]),
           (''properties'', JObj [])]"

definition empty_line_then_circle :: json where
  "empty_line_then_circle =
     JObj [(''type'', JStr ''FeatureCollection''),
           (''features'', JArr [line_record (JArr []), circle_record])]"

definition point_then_circle :: json where
  "point_then_circle =
     JObj [(''type'', JStr ''FeatureCollection''),
           (''features'', JArr [point_record 0 0 (JNum (Fin 1)), circle_record])]"

section \<open>Saved features\<close>

text \<open>
  The dict that \<^verbatim>\<open>saveAsGeoJson\<close> appends for a feature, and the property of a
  feature that the class of its type tag, applied to its coordinates, constructs its
  geometry again.
\<close>

definition saved_feature :: "feature \<Rightarrow> json" where
  "saved_feature f =
     JObj [(''type'', JStr ''Feature''),
           (''geometry'', JObj [(''type'', JStr (type (geometry f))),
                                (''coordinates'', coordinates (geometry f))]),
           (''properties'', properties f)]"

definition rebuilds :: "feature \<Rightarrow> bool" where
  "rebuilds f =
     (bindE (dispatch (JStr (type (geometry f)))) (\<lambda>cls. cls (coordinates (geometry f)))
        = Inr (geometry f))"

section \<open>Basic facts\<close>

lemma bindE_Inl [simp]: "bindE (Inl e) f = Inl e"
  by (simp add: bindE_def)

lemma bindE_Inr [simp]: "bindE (Inr x) f = f x"
  by (simp add: bindE_def)

lemma bindE_eq_Inr: "bindE m f = Inr y \<longleftrightarrow> (\<exists>x. m = Inr x \<and> f x = Inr y)"
  by (cases m) simp_all


lemma mapE_eq_Inr: "mapE f xs = Inr ys \<longleftrightarrow> list_all2 (\<lambda>x y. f x = Inr y) xs ys"
proof (induction xs arbitrary: ys)
  case Nil
  show ?case by auto
next
  case (Cons x xs)
  show ?case
    by (cases ys) (auto simp: bindE_eq_Inr Cons.IH)
qed

lemma mapE_map: "mapE (\<lambda>x. Inr (g x)) xs = Inr (map g xs)"
  by (induction xs) simp_all

section \<open>Lists, dicts and the loop of the constructor\<close>




lemma update_fresh: "k \<notin> fst ` set al \<Longrightarrow> AList.update k v al = al @ [(k, v)]"
  by (induction al) auto

lemma map_of_upt_keys:
  assumes "map fst fs = [0 ..< n]" and "i < n"
  shows "map_of fs i = Some (snd (fs ! i))"
proof -
  from assms have len: "length fs = n" by (metis length_map length_upt diff_zero)
  have d: "distinct (map fst fs)" using assms by simp
  have "fst (fs ! i) = i" using assms len by (metis nth_map nth_upt add_0)
  then have "(i, snd (fs ! i)) \<in> set fs"
    using len assms(2) by (metis nth_mem prod.collapse)
  with d show ?thesis by simp
qed

lemma features_get_upt:
  assumes "map fst (features fc) = [0 ..< n]" and "i < n"
  shows "features_get fc i = Inr (snd (features fc ! i))"
  using map_of_upt_keys [OF assms] by (simp add: features_get_def)

lemma mapE_nth:
  assumes "\<And>i. i < n \<Longrightarrow> f i = Inr (g i)"
  shows "mapE f [0 ..< n] = Inr (map g [0 ..< n])"
  using assms by (simp add: mapE_eq_Inr list_all2_conv_all_nth)

lemma init_loop_keys:
  assumes "init_loop recs i (n, fs) = Inr (n', fs')" and "map fst fs = [0 ..< i]" and "n = i"
  shows "map fst fs' = [0 ..< i + length recs] \<and> n' = i + length recs"
  using assms
proof (induction recs arbitrary: i n fs)
  case Nil
  then show ?case by simp
next
  case (Cons r recs)
  from Cons.prems(1) obtain f where
    step: "init_loop recs (Suc i) (Suc n, AList.update i f fs) = Inr (n', fs')"
    by (auto simp: bindE_eq_Inr)
  have "i \<notin> fst ` set fs" using Cons.prems(2) by (metis set_map atLeastLessThan_iff set_upt less_irrefl)
  then have "map fst (AList.update i f fs) = [0 ..< Suc i]"
    using Cons.prems(2) by (simp add: update_fresh)
  from Cons.IH [OF step this] Cons.prems(3) show ?case by simp
qed

section \<open>Rounding to a float\<close>

lemma bits_le: "bits n \<le> k \<longleftrightarrow> n < 2 ^ k"
proof (induction n arbitrary: k rule: bits.induct)
  case (1 n)
  show ?case
  proof (cases "n = 0")
    case True
    then show ?thesis by (simp add: bits.simps)
  next
    case False
    show ?thesis
    proof (cases k)
      case 0
      with False show ?thesis by (simp add: bits.simps)
    next
      case (Suc k')
      have "bits n \<le> Suc k' \<longleftrightarrow> bits (n div 2) \<le> k'"
        using False by (simp add: bits.simps [of n])
      also have "\<dots> \<longleftrightarrow> n div 2 < 2 ^ k'"
        using "1.IH" [OF False] by simp
      also have "\<dots> \<longleftrightarrow> n < 2 ^ Suc k'"
        by (simp add: less_mult_imp_div_less div_less_iff_less_mult mult.commute)
      finally show ?thesis using Suc by simp
    qed
  qed
qed

lemma bits_eq:
  assumes "2 ^ k \<le> n" and "n < 2 ^ Suc k"
  shows "bits n = Suc k"
proof -
  from assms(2) have "bits n \<le> Suc k" by (simp only: bits_le)
  moreover from assms(1) have "\<not> bits n \<le> k" by (simp add: bits_le)
  ultimately show ?thesis by simp
qed

lemma round53_exact:
  assumes "a \<le> 2 ^ 53"
  shows "round53 a = a"
proof (cases "a = 2 ^ 53")
  case True
  then have a: "a = 9007199254740992" by simp
  have b: "bits 9007199254740992 = Suc 53" by (rule bits_eq) simp_all
  show ?thesis unfolding a by (simp add: round53_def b Let_def)
next
  case False
  with assms have "a < 2 ^ 53" by simp
  then have "bits a \<le> 53" by (simp only: bits_le)
  then show ?thesis by (simp add: round53_def Let_def)
qed

lemma to_float64_exact:
  assumes "\<bar>i\<bar> \<le> 2 ^ 53"
  shows "to_float64 i = real_of_int i"
proof (cases "i < 0")
  case True
  with assms have "nat (- i) \<le> 2 ^ 53" by (simp add: nat_le_iff)
  from round53_exact [OF this] True show ?thesis by (simp add: to_float64_def)
next
  case False
  with assms have "nat i \<le> 2 ^ 53" by (simp add: nat_le_iff)
  from round53_exact [OF this] False show ?thesis by (simp add: to_float64_def)
qed

lemma to_float64_big: "to_float64 9007199254740993 = 9007199254740992"
proof -
  have b: "bits 9007199254740993 = Suc 53" by (rule bits_eq) simp_all
  show ?thesis
    by (simp add: to_float64_def round53_def b Let_def)
qed

section \<open>Arrays built from columns\<close>

lemma mapE_eq_map:
  assumes "mapE g vs = Inr ys"
  shows "ys = map (\<lambda>v. projr (g v)) vs"
  using assms
proof (induction vs arbitrary: ys)
  case Nil
  then show ?case by simp
next
  case (Cons v vs)
  then show ?case by (auto simp: bindE_eq_Inr)
qed

lemma those_eq_map:
  assumes "those (map h vs) = Some ts"
  shows "ts = map (\<lambda>v. the (h v)) vs"
  using assms
proof (induction vs arbitrary: ts)
  case Nil
  then show ?case by simp
next
  case (Cons v vs)
  then show ?case by (auto split: option.splits)
qed

lemma np_items_map:
  assumes "np_items vs = Inr xs"
  shows "\<exists>f. xs = map f vs"
proof (cases "list_all is_int64 vs")
  case True
  with assms obtain ns where "mapE num_of vs = Inr ns" "xs = map Num ns"
    by (auto simp: np_items_def bindE_eq_Inr)
  with mapE_eq_map [of num_of vs ns] have "xs = map (\<lambda>v. Num (projr (num_of v))) vs" by simp
  then show ?thesis by blast
next
  case False
  show ?thesis
  proof (cases "those (map text_of vs)")
    case (Some ts)
    with False assms have "xs = map Str ts" by (simp add: np_items_def)
    with those_eq_map [OF Some] have "xs = map (\<lambda>v. Str (the (text_of v))) vs" by simp
    then show ?thesis by blast
  next
    case None
    with False assms obtain ns where "mapE float64_of vs = Inr ns" "xs = map Num ns"
      by (auto simp: np_items_def bindE_eq_Inr)
    with mapE_eq_map [of float64_of vs ns] have "xs = map (\<lambda>v. Num (projr (float64_of v))) vs"
      by simp
    then show ?thesis by blast
  qed
qed

lemma np_items_duplicates:
  assumes "np_items vs = Inr xs" and "\<not> distinct vs"
  shows "length xs = length vs \<and> \<not> distinct xs"
proof -
  from np_items_map [OF assms(1)] obtain f where "xs = map f vs" by blast
  with assms(2) show ?thesis by (auto simp: distinct_map)
qed







lemma np_items_length: "np_items vs = Inr xs \<Longrightarrow> length xs = length vs"
  using np_items_map by fastforce

lemma py_value_int64: "is_int64 v \<Longrightarrow> num_of v = Inr n \<Longrightarrow> py_value v = Some (Num n)"
  by (cases v) auto




section \<open>Columns and the objects a program can hold\<close>


lemma getPropertiesAsLists_features:
  assumes "features fc' = features fc" and "n_features fc' = n_features fc"
  shows "getPropertiesAsLists fc' ps = getPropertiesAsLists fc ps"
  using assms by (simp add: getPropertiesAsLists_def features_get_def)

lemma getPropertiesAsArray_features:
  assumes "features fc' = features fc" and "n_features fc' = n_features fc"
  shows "getPropertiesAsArray fc' ps = getPropertiesAsArray fc ps"
  using getPropertiesAsLists_features [OF assms] by (simp add: getPropertiesAsArray_def)

lemma mapE_single: "mapE g [p] = Inr row \<longleftrightarrow> (\<exists>v. g p = Inr v \<and> row = [v])"
  by (auto simp: bindE_eq_Inr)

lemma getPropertiesAsLists_column:
  assumes "getPropertiesAsLists fc [p] = Inr rows"
  shows "\<exists>col. rows = map (\<lambda>v. [v]) col \<and> length col = n_features fc \<and>
           (\<forall>i<n_features fc. \<exists>f. features_get fc i = Inr f \<and> py_get (properties f) p = Inr (col ! i))"
proof -
  from assms have la: "list_all2 (\<lambda>i row. \<exists>f v. features_get fc i = Inr f \<and>
        py_get (properties f) p = Inr v \<and> row = [v]) [0 ..< n_features fc] rows"
    by (auto simp: getPropertiesAsLists_def mapE_eq_Inr bindE_eq_Inr mapE_single
        elim!: list_all2_mono)
  then have len: "length rows = n_features fc"
    by (auto dest: list_all2_lengthD)
  have each: "\<exists>f v. features_get fc i = Inr f \<and> py_get (properties f) p = Inr v \<and> rows ! i = [v]"
    if "i < n_features fc" for i
    using list_all2_nthD [OF la, of i] that by simp
  let ?col = "map hd rows"
  have "rows = map (\<lambda>v. [v]) ?col"
  proof (rule nth_equalityI)
    show "length rows = length (map (\<lambda>v. [v]) (map hd rows))" by simp
    fix i assume "i < length rows"
    then show "rows ! i = map (\<lambda>v. [v]) (map hd rows) ! i"
      using each [of i] len by auto
  qed
  moreover have "length ?col = n_features fc" using len by simp
  moreover have "\<forall>i<n_features fc. \<exists>f. features_get fc i = Inr f \<and>
      py_get (properties f) p = Inr (?col ! i)"
    using each len by fastforce
  ultimately show ?thesis by blast
qed

lemma setter_cases:
  assumes "idVariable_setter fc p = Inr (fc', ws)"
  shows "features fc' = features fc \<and> n_features fc' = n_features fc \<and>
         (fc' = fc \<or> private_idVariable fc' = Some p \<and>
            (\<forall>k. p = Some k \<longrightarrow> (\<exists>a. getPropertiesAsArray fc [Some k] = Inr a \<and> is_unique a)))"
  using assms
  by (cases p) (auto simp: idVariable_setter_def bindE_eq_Inr split: if_splits)

lemma init_cases:
  assumes "FeatureCollection_init data idv = Inr (fc, ws)"
  shows "\<exists>fs recs n feats. py_get data (Some ''features'') = Inr fs \<and> py_iter fs = Inr recs \<and>
           init_loop recs 0 (0, []) = Inr (n, feats) \<and>
           idVariable_setter \<lparr>n_features = n, features = feats, private_idVariable = None\<rparr> idv
             = Inr (fc, ws)"
  using assms by (auto simp: FeatureCollection_init_def bindE_eq_Inr)

lemma reachable_keys:
  assumes "reachable fc"
  shows "map fst (features fc) = [0 ..< n_features fc]"
  using assms
proof (induction rule: reachable.induct)
  case (constructed data idv fc ws)
  from init_cases [OF constructed] obtain recs n feats where
    loop: "init_loop recs 0 (0, []) = Inr (n, feats)" and
    set: "idVariable_setter \<lparr>n_features = n, features = feats, private_idVariable = None\<rparr> idv
             = Inr (fc, ws)"
    by blast
  from init_loop_keys [OF loop] have "map fst feats = [0 ..< n]" by simp
  with setter_cases [OF set] show ?case by simp
next
  case (assigned fc p fc' ws)
  with setter_cases [OF assigned.hyps(2)] show ?case by simp
qed

lemma reachable_column:
  assumes "reachable fc" and "private_idVariable fc = Some (Some k)"
  shows "\<exists>a. getPropertiesAsArray fc [Some k] = Inr a \<and> is_unique a"
  using assms
proof (induction rule: reachable.induct)
  case (constructed data idv fc ws)
  from init_cases [OF constructed.hyps] obtain n feats where
    set: "idVariable_setter \<lparr>n_features = n, features = feats, private_idVariable = None\<rparr> idv
             = Inr (fc, ws)"
    by blast
  let ?fc0 = "\<lparr>n_features = n, features = feats, private_idVariable = None\<rparr>"
  from setter_cases [OF set]
  have same: "features fc = features ?fc0" "n_features fc = n_features ?fc0" and
    alt: "fc = ?fc0 \<or> private_idVariable fc = Some idv \<and>
            (\<forall>k. idv = Some k \<longrightarrow>
               (\<exists>a. getPropertiesAsArray ?fc0 [Some k] = Inr a \<and> is_unique a))"
    by auto
  from alt show ?case
  proof
    assume "fc = ?fc0"
    then have "private_idVariable fc = None" by (metis FeatureCollection.select_convs(3))
    with constructed.prems show ?thesis by simp
  next
    assume "private_idVariable fc = Some idv \<and>
            (\<forall>k. idv = Some k \<longrightarrow>
               (\<exists>a. getPropertiesAsArray ?fc0 [Some k] = Inr a \<and> is_unique a))"
    with constructed.prems
    have "\<exists>a. getPropertiesAsArray ?fc0 [Some k] = Inr a \<and> is_unique a"
      by auto
    then show ?thesis using getPropertiesAsArray_features [OF same] by simp
  qed
next
  case (assigned fc p fc' ws)
  from setter_cases [OF assigned.hyps(2)]
  have same: "features fc' = features fc" "n_features fc' = n_features fc" and
    alt: "fc' = fc \<or> private_idVariable fc' = Some p \<and>
            (\<forall>k. p = Some k \<longrightarrow> (\<exists>a. getPropertiesAsArray fc [Some k] = Inr a \<and> is_unique a))"
    by auto
  from alt show ?case
  proof
    assume "fc' = fc"
    with assigned show ?thesis by simp
  next
    assume "private_idVariable fc' = Some p \<and>
            (\<forall>k. p = Some k \<longrightarrow> (\<exists>a. getPropertiesAsArray fc [Some k] = Inr a \<and> is_unique a))"
    with assigned.prems have "\<exists>a. getPropertiesAsArray fc [Some k] = Inr a \<and> is_unique a"
      by auto
    then show ?thesis using getPropertiesAsArray_features [OF same] by simp
  qed
qed

lemma all_features_in_order:
  assumes "map fst (features fc) = [0 ..< n_features fc]"
  shows "mapE (\<lambda>i. features_get fc i) [0 ..< n_features fc] = Inr (map snd (features fc))"
proof -
  have len: "length (features fc) = n_features fc"
    using assms by (metis length_map length_upt diff_zero)
  have "mapE (\<lambda>i. features_get fc i) [0 ..< n_features fc]
      = Inr (map (\<lambda>i. snd (features fc ! i)) [0 ..< n_features fc])"
    by (rule mapE_nth) (rule features_get_upt [OF assms])
  also have "map (\<lambda>i. snd (features fc ! i)) [0 ..< n_features fc] = map snd (features fc)"
    using len by (simp add: list_eq_iff_nth_eq)
  finally show ?thesis .
qed

lemma mapE_then: 
  assumes "mapE f xs = Inr ys"
  shows "mapE (\<lambda>x. bindE (f x) (\<lambda>y. Inr (g y))) xs = Inr (map g ys)"
  using assms by (auto simp: mapE_eq_Inr list_all2_conv_all_nth)

section \<open>The scenarios, evaluated\<close>

lemmas scenario_defs = point_record_def point_feature_def three_points_def three_points_fc_def
  two_points_def two_points_fc_def two_lists_def two_lists_fc_def big_and_half_def
  big_and_half_fc_def

lemmas init_defs = FeatureCollection_init_def geometryDispatcher_def Point_def
  idVariable_setter_def getPropertiesAsArray_def getPropertiesAsLists_def features_get_def
  is_unique_def np_array_def np_items_def int64_def to_float64_big



lemma three_points_init:
  "FeatureCollection_init three_points (Some ''id'') = Inr (three_points_fc (Some (Some ''id'')), [])"
  by (simp add: scenario_defs init_defs eval_nat_numeral)

lemma three_points_init_None:
  "FeatureCollection_init three_points None = Inr (three_points_fc (Some None), [])"
  by (simp add: scenario_defs init_defs eval_nat_numeral)


lemma two_points_init:
  "FeatureCollection_init two_points (Some ''id'') = Inr (two_points_fc None, [warning_msg ''id''])"
  by (simp add: scenario_defs init_defs eval_nat_numeral)


lemma two_lists_init:
  "FeatureCollection_init two_lists (Some ''id'') = Inr (two_lists_fc (Some (Some ''id'')), [])"
  by (simp add: scenario_defs init_defs eval_nat_numeral)



section \<open>Bounding boxes\<close>

lemmas box_sel = box_l_def box_b_def box_r_def box_t_def

lemma mapE_comp:
  "(\<exists>vs. mapE f cs = Inr vs \<and> mapE g vs = Inr xs) \<longleftrightarrow>
     list_all2 (\<lambda>c x. \<exists>v. f c = Inr v \<and> g v = Inr x) cs xs"
proof -
  have "list_all2 ((\<lambda>c v. f c = Inr v) OO (\<lambda>v x. g v = Inr x)) =
      list_all2 (\<lambda>c v. f c = Inr v) OO list_all2 (\<lambda>v x. g v = Inr x)"
    by (rule list.rel_compp)
  then have "list_all2 (\<lambda>c x. \<exists>v. f c = Inr v \<and> g v = Inr x) cs xs \<longleftrightarrow>
      (\<exists>vs. list_all2 (\<lambda>c v. f c = Inr v) cs vs \<and> list_all2 (\<lambda>v x. g v = Inr x) vs xs)"
    by (simp add: OO_def fun_eq_iff)
  then show ?thesis by (simp add: mapE_eq_Inr)
qed

lemma mapE_length: "mapE f xs = Inr ys \<Longrightarrow> length ys = length xs"
  by (auto simp: mapE_eq_Inr dest: list_all2_lengthD)

lemma py_min_eq_Inr:
  "py_min vs = Inr m \<longleftrightarrow> (\<exists>ns. mapE num_of vs = Inr ns \<and> ns \<noteq> [] \<and> m = Min (set ns))"
proof (cases "vs = []")
  case True
  then show ?thesis by (auto simp: py_min_def)
next
  case False
  have "fold min (tl ns) (hd ns) = Min (set ns)" if "ns \<noteq> []" for ns :: "num list"
    using that Min.set_eq_fold [of "hd ns" "tl ns"] by simp
  moreover have "ns \<noteq> []" if "mapE num_of vs = Inr ns" for ns
    using mapE_length [OF that] False by auto
  ultimately show ?thesis using False
    by (auto simp: py_min_def bindE_eq_Inr)
qed

lemma py_max_eq_Inr:
  "py_max vs = Inr m \<longleftrightarrow> (\<exists>ns. mapE num_of vs = Inr ns \<and> ns \<noteq> [] \<and> m = Max (set ns))"
proof (cases "vs = []")
  case True
  then show ?thesis by (auto simp: py_max_def)
next
  case False
  have "fold max (tl ns) (hd ns) = Max (set ns)" if "ns \<noteq> []" for ns :: "num list"
    using that Max.set_eq_fold [of "hd ns" "tl ns"] by simp
  moreover have "ns \<noteq> []" if "mapE num_of vs = Inr ns" for ns
    using mapE_length [OF that] False by auto
  ultimately show ?thesis using False
    by (auto simp: py_max_def bindE_eq_Inr)
qed

lemma ring_bbox_eq_Inr:
  "ring_bbox ring = Inr q \<longleftrightarrow>
     (\<exists>cs xs ys. py_iter ring = Inr cs \<and> cs \<noteq> [] \<and>
        list_all2 (\<lambda>c x. \<exists>v. py_index c 0 = Inr v \<and> num_of v = Inr x) cs xs \<and>
        list_all2 (\<lambda>c y. \<exists>v. py_index c 1 = Inr v \<and> num_of v = Inr y) cs ys \<and>
        q = (Min (set xs), Min (set ys), Max (set xs), Max (set ys)))"
  (is "?L \<longleftrightarrow> ?R")
proof
  assume ?L
  then obtain cs vx vy l b r t where
    it: "py_iter ring = Inr cs" and
    vx: "mapE (\<lambda>c. py_index c 0) cs = Inr vx" and
    vy: "mapE (\<lambda>c. py_index c 1) cs = Inr vy" and
    m: "py_min vx = Inr l" "py_min vy = Inr b" "py_max vx = Inr r" "py_max vy = Inr t" and
    q: "q = (l, b, r, t)"
    by (auto simp: ring_bbox_def bindE_eq_Inr)
  from m(1) obtain xs where xs: "mapE num_of vx = Inr xs" "xs \<noteq> []" "l = Min (set xs)"
    by (auto simp: py_min_eq_Inr)
  from m(2) obtain ys where ys: "mapE num_of vy = Inr ys" "ys \<noteq> []" "b = Min (set ys)"
    by (auto simp: py_min_eq_Inr)
  from m(3) xs(1) have r: "r = Max (set xs)"
    by (auto simp: py_max_eq_Inr)
  from m(4) ys(1) have t: "t = Max (set ys)"
    by (auto simp: py_max_eq_Inr)
  from vx xs(1) have ax: "list_all2 (\<lambda>c x. \<exists>v. py_index c 0 = Inr v \<and> num_of v = Inr x) cs xs"
    unfolding mapE_comp [symmetric] by blast
  from vy ys(1) have ay: "list_all2 (\<lambda>c y. \<exists>v. py_index c 1 = Inr v \<and> num_of v = Inr y) cs ys"
    unfolding mapE_comp [symmetric] by blast
  from ax xs(2) have "cs \<noteq> []" by auto
  with it ax ay q xs(3) ys(3) r t show ?R by blast
next
  assume ?R
  then obtain cs xs ys where
    it: "py_iter ring = Inr cs" and ne: "cs \<noteq> []" and
    ax: "list_all2 (\<lambda>c x. \<exists>v. py_index c 0 = Inr v \<and> num_of v = Inr x) cs xs" and
    ay: "list_all2 (\<lambda>c y. \<exists>v. py_index c 1 = Inr v \<and> num_of v = Inr y) cs ys" and
    q: "q = (Min (set xs), Min (set ys), Max (set xs), Max (set ys))"
    by blast
  from ax obtain vx where vx: "mapE (\<lambda>c. py_index c 0) cs = Inr vx" "mapE num_of vx = Inr xs"
    unfolding mapE_comp [symmetric] by blast
  from ay obtain vy where vy: "mapE (\<lambda>c. py_index c 1) cs = Inr vy" "mapE num_of vy = Inr ys"
    unfolding mapE_comp [symmetric] by blast
  from ax ay ne have "xs \<noteq> []" "ys \<noteq> []" by auto
  with vx(2) vy(2)
  have "py_min vx = Inr (Min (set xs))" "py_min vy = Inr (Min (set ys))"
    "py_max vx = Inr (Max (set xs))" "py_max vy = Inr (Max (set ys))"
    by (auto simp: py_min_eq_Inr py_max_eq_Inr)
  with it vx(1) vy(1) q show ?L
    by (simp add: ring_bbox_def)
qed


lemma join_step: "(min l x0, min b y0, max r x1, max t y1) = join (l, b, r, t) (x0, y0, x1, y1)"
  by (simp add: join_def box_sel)

lemma rings_loop_step:
  "rings_loop (ring # rings) (q, bbs) = Inr acc \<longleftrightarrow>
     (\<exists>b. ring_bbox ring = Inr b \<and> rings_loop rings (join b q, bbs @ [list4 b]) = Inr acc)"
proof -
  obtain x0 y0 x1 y1 where q: "q = (x0, y0, x1, y1)" by (cases q) auto
  show ?thesis
    unfolding q by (auto simp: bindE_eq_Inr join_step)
qed

lemma rings_loop_eq_Inr:
  "rings_loop rings (q, bbs) = Inr (q', bbs') \<longleftrightarrow>
     (\<exists>boxes. list_all2 (\<lambda>ring b. ring_bbox ring = Inr b) rings boxes \<and>
        q' = fold join boxes q \<and> bbs' = bbs @ map list4 boxes)"
proof (induction rings arbitrary: q bbs)
  case Nil
  show ?case by auto
next
  case (Cons ring rings)
  show ?case (is "?L \<longleftrightarrow> ?R")
  proof
    assume ?L
    then obtain b boxes where "ring_bbox ring = Inr b"
      "list_all2 (\<lambda>ring b. ring_bbox ring = Inr b) rings boxes"
      "q' = fold join boxes (join b q)" "bbs' = (bbs @ [list4 b]) @ map list4 boxes"
      unfolding rings_loop_step Cons.IH by blast
    then show ?R
      by (intro exI [of _ "b # boxes"]) simp
  next
    assume ?R
    then obtain b boxes where "ring_bbox ring = Inr b"
      "list_all2 (\<lambda>ring b. ring_bbox ring = Inr b) rings boxes"
      "q' = fold join (b # boxes) q" "bbs' = bbs @ map list4 (b # boxes)"
      by (auto simp: list_all2_Cons1)
    then show ?L
      unfolding rings_loop_step Cons.IH by auto
  qed
qed

lemma lines_loop_step:
  "lines_loop (l # ls) q = Inr q' \<longleftrightarrow>
     (\<exists>b. ring_bbox l = Inr b \<and> lines_loop ls (join b q) = Inr q')"
proof -
  obtain x0 y0 x1 y1 where q: "q = (x0, y0, x1, y1)" by (cases q) auto
  show ?thesis
    unfolding q by (auto simp: bindE_eq_Inr join_step LineString_build_bbox_def)
qed

lemma lines_loop_eq_Inr:
  "lines_loop ls q = Inr q' \<longleftrightarrow>
     (\<exists>boxes. list_all2 (\<lambda>l b. ring_bbox l = Inr b) ls boxes \<and> q' = fold join boxes q)"
proof (induction ls arbitrary: q)
  case Nil
  show ?case by auto
next
  case (Cons l ls)
  show ?case (is "?L \<longleftrightarrow> ?R")
  proof
    assume ?L
    then obtain b boxes where "ring_bbox l = Inr b"
      "list_all2 (\<lambda>l b. ring_bbox l = Inr b) ls boxes" "q' = fold join boxes (join b q)"
      unfolding lines_loop_step Cons.IH by blast
    then show ?R
      by (intro exI [of _ "b # boxes"]) simp
  next
    assume ?R
    then obtain b boxes where "ring_bbox l = Inr b"
      "list_all2 (\<lambda>l b. ring_bbox l = Inr b) ls boxes" "q' = fold join (b # boxes) q"
      by (auto simp: list_all2_Cons1)
    then show ?L
      unfolding lines_loop_step Cons.IH by auto
  qed
qed

lemma polygons_loop_step:
  "polygons_loop (poly # polys) (q, bbs) = Inr acc \<longleftrightarrow>
     (\<exists>rings boxes. py_iter poly = Inr rings \<and>
        list_all2 (\<lambda>ring b. ring_bbox ring = Inr b) rings boxes \<and>
        polygons_loop polys (fold join boxes q, bbs @ [JArr (map list4 boxes)]) = Inr acc)"
  (is "?L \<longleftrightarrow> ?R")
proof
  assume ?L
  then obtain rings q' pbbox where it: "py_iter poly = Inr rings" and
    inner: "rings_loop rings (q, []) = Inr (q', pbbox)" and
    rest: "polygons_loop polys (q', bbs @ [JArr pbbox]) = Inr acc"
    by (auto simp: bindE_eq_Inr)
  from inner obtain boxes where "list_all2 (\<lambda>ring b. ring_bbox ring = Inr b) rings boxes"
    "q' = fold join boxes q" "pbbox = map list4 boxes"
    by (auto simp: rings_loop_eq_Inr)
  with it rest show ?R by blast
next
  assume ?R
  then obtain rings boxes where it: "py_iter poly = Inr rings" and
    bs: "list_all2 (\<lambda>ring b. ring_bbox ring = Inr b) rings boxes" and
    rest: "polygons_loop polys (fold join boxes q, bbs @ [JArr (map list4 boxes)]) = Inr acc"
    by blast
  from bs have "rings_loop rings (q, []) = Inr (fold join boxes q, map list4 boxes)"
    by (auto simp: rings_loop_eq_Inr)
  with it rest show ?L by simp
qed

lemma polygons_loop_eq_Inr:
  "polygons_loop polys (q, bbs) = Inr (q', bbs') \<longleftrightarrow>
     (\<exists>boxess. list_all2 (\<lambda>poly boxes. \<exists>rings. py_iter poly = Inr rings \<and>
                    list_all2 (\<lambda>ring b. ring_bbox ring = Inr b) rings boxes) polys boxess \<and>
        q' = fold join (concat boxess) q \<and>
        bbs' = bbs @ map (\<lambda>boxes. JArr (map list4 boxes)) boxess)"
proof (induction polys arbitrary: q bbs)
  case Nil
  show ?case by auto
next
  case (Cons poly polys)
  let ?P = "\<lambda>poly boxes. \<exists>rings. py_iter poly = Inr rings \<and>
                    list_all2 (\<lambda>ring b. ring_bbox ring = Inr b) rings boxes"
  show ?case (is "?L \<longleftrightarrow> ?R")
  proof
    assume ?L
    then obtain boxes boxess where "?P poly boxes" "list_all2 ?P polys boxess"
      "q' = fold join (concat boxess) (fold join boxes q)"
      "bbs' = (bbs @ [JArr (map list4 boxes)]) @ map (\<lambda>boxes. JArr (map list4 boxes)) boxess"
      unfolding polygons_loop_step Cons.IH by blast
    then show ?R
      by (intro exI [of _ "boxes # boxess"]) simp
  next
    assume ?R
    then obtain boxes boxess where "?P poly boxes" "list_all2 ?P polys boxess"
      "q' = fold join (concat (boxes # boxess)) q"
      "bbs' = bbs @ map (\<lambda>boxes. JArr (map list4 boxes)) (boxes # boxess)"
      by (auto simp: list_all2_Cons1)
    then show ?L
      unfolding polygons_loop_step Cons.IH by auto
  qed
qed





lemma num_le_PInf [simp]: "x \<le> PInf"
  by (cases x) simp_all

lemma NInf_le_num [simp]: "NInf \<le> x"
  by (cases x) simp_all



















lemma dispatcher_cases:
  assumes "geometryDispatcher tag = Some cls"
  shows "tag = ''Point'' \<and> cls = Point \<or> tag = ''Polygon'' \<and> cls = Polygon \<or>
         tag = ''LineString'' \<and> cls = LineString \<or> tag = ''MultiPoint'' \<and> cls = MultiPoint \<or>
         tag = ''MultiPolygon'' \<and> cls = MultiPolygon \<or>
         tag = ''MultiLineString'' \<and> cls = MultiLineString"
  using assms by (simp add: geometryDispatcher_def split: if_splits)


lemmas eval_defs = pos_def ring_bbox_def py_min_def py_max_def list4_def sentinel_def

lemma square_with_hole_Polygon:
  "Polygon square_with_hole =
     Inr \<lparr>coordinates = square_with_hole,
          bbox = JArr [JNum (Fin 0), JNum (Fin 0), JNum (Fin 4), JNum (Fin 3)],
          bboxes = Some (JArr [JArr [JNum (Fin 0), JNum (Fin 0), JNum (Fin 4), JNum (Fin 3)],
                               JArr [JNum (Fin 1), JNum (Fin 1), JNum (Fin 2), JNum (Fin 2)]]),
          type = ''Polygon''\<rparr>"
  by (simp add: Polygon_def Polygon_build_bbox_def square_with_hole_def eval_defs)


section \<open>The loop of the constructor, continued\<close>

lemma bindE_assoc: "bindE (bindE m f) g = bindE m (\<lambda>x. bindE (f x) g)"
  by (cases m) simp_all

lemma init_loop_append:
  "init_loop (pre @ rest) i acc =
     bindE (init_loop pre i acc) (\<lambda>acc'. init_loop rest (i + length pre) acc')"
proof (induction pre arbitrary: i acc)
  case Nil
  show ?case by simp
next
  case (Cons r pre)
  obtain n fs where acc: "acc = (n, fs)" by (cases acc) auto
  show ?case
    unfolding acc by (simp add: bindE_assoc Cons.IH)
qed

lemma dispatcher_None:
  "geometryDispatcher t = None \<longleftrightarrow>
     t \<notin> {''Point'', ''MultiPoint'', ''LineString'', ''MultiLineString'', ''Polygon'', ''MultiPolygon''}"
  by (simp add: geometryDispatcher_def)

lemma missing_coordinates:
  assumes "py_get gm (Some ''type'') = Inr ft"
  shows "(\<exists>c. py_get gm (Some ''coordinates'') = Inr c) \<or>
         py_get gm (Some ''coordinates'') = Inl (KeyError (JStr ''coordinates''))"
proof (cases gm)
  case (JObj kvs)
  then show ?thesis by (cases "map_of kvs ''coordinates''") simp_all
qed (use assms in simp_all)

lemma init_loop_unknown_type:
  assumes "py_get bad (Some ''geometry'') = Inr gm" and "py_get gm (Some ''type'') = Inr (JStr t)"
    and "geometryDispatcher t = None"
  shows "init_loop (bad # post) i acc =
     Inl (case py_get gm (Some ''coordinates'') of Inl e \<Rightarrow> e | Inr c \<Rightarrow> KeyError (JStr t))"
proof -
  obtain n fs where acc: "acc = (n, fs)" by (cases acc) auto
  show ?thesis unfolding acc using assms
    by (cases "py_get gm (Some ''coordinates'')") simp_all
qed

section \<open>Saving and loading\<close>

lemma class_type_coordinates:
  assumes "geometryDispatcher t = Some cls" and "cls c = Inr g"
  shows "type g = t \<and> coordinates g = c"
proof -
  from dispatcher_cases [OF assms(1)] show ?thesis
  proof (elim disjE conjE)
    assume t: "t = ''Point''" "cls = Point"
    with assms(2) show ?thesis by (auto simp: Point_def)
  next
    assume t: "t = ''Polygon''" "cls = Polygon"
    with assms(2) show ?thesis by (auto simp: Polygon_def bindE_eq_Inr)
  next
    assume t: "t = ''LineString''" "cls = LineString"
    with assms(2) show ?thesis by (auto simp: LineString_def bindE_eq_Inr)
  next
    assume t: "t = ''MultiPoint''" "cls = MultiPoint"
    with assms(2) show ?thesis by (auto simp: MultiPoint_def bindE_eq_Inr)
  next
    assume t: "t = ''MultiPolygon''" "cls = MultiPolygon"
    with assms(2) show ?thesis by (auto simp: MultiPolygon_def bindE_eq_Inr)
  next
    assume t: "t = ''MultiLineString''" "cls = MultiLineString"
    with assms(2) show ?thesis by (auto simp: MultiLineString_def bindE_eq_Inr)
  qed
qed

lemma dispatch_eq_Inr: "dispatch ft = Inr cls \<longleftrightarrow> (\<exists>t. ft = JStr t \<and> geometryDispatcher t = Some cls)"
  by (cases ft) (auto split: option.splits)

lemma built_rebuilds:
  assumes "dispatch ft = Inr cls" and "cls c = Inr g"
  shows "rebuilds \<lparr>geometry = g, properties = p\<rparr>"
proof -
  from assms(1) obtain t where t: "ft = JStr t" "geometryDispatcher t = Some cls"
    by (auto simp: dispatch_eq_Inr)
  from class_type_coordinates [OF t(2) assms(2)] assms t show ?thesis
    by (simp add: rebuilds_def)
qed

lemma set_update:
  "set (AList.update k v al) \<subseteq> insert (k, v) (set al)"
  by (induction al) auto

lemma init_loop_rebuilds:
  assumes "init_loop recs i (n, fs) = Inr (n', fs')" and "\<forall>kf \<in> set fs. rebuilds (snd kf)"
  shows "\<forall>kf \<in> set fs'. rebuilds (snd kf)"
  using assms
proof (induction recs arbitrary: i n fs)
  case Nil
  then show ?case by simp
next
  case (Cons r recs)
  from Cons.prems(1) obtain ft c cls g p where
    b: "dispatch ft = Inr cls" "cls c = Inr g" and
    step: "init_loop recs (Suc i) (Suc n, AList.update i \<lparr>geometry = g, properties = p\<rparr> fs)
        = Inr (n', fs')"
    by (auto simp: bindE_eq_Inr)
  have "\<forall>kf \<in> set (AList.update i \<lparr>geometry = g, properties = p\<rparr> fs). rebuilds (snd kf)"
    using set_update [of i "\<lparr>geometry = g, properties = p\<rparr>" fs] Cons.prems(2)
      built_rebuilds [OF b]
    by auto
  from Cons.IH [OF step this] show ?case .
qed

lemma reachable_rebuilds:
  assumes "reachable fc"
  shows "\<forall>kf \<in> set (features fc). rebuilds (snd kf)"
  using assms
proof (induction rule: reachable.induct)
  case (constructed data idv fc ws)
  from init_cases [OF constructed] obtain recs n feats where
    loop: "init_loop recs 0 (0, []) = Inr (n, feats)" and
    set: "idVariable_setter \<lparr>n_features = n, features = feats, private_idVariable = None\<rparr> idv
             = Inr (fc, ws)"
    by blast
  from init_loop_rebuilds [OF loop] have "\<forall>kf \<in> set feats. rebuilds (snd kf)" by simp
  with setter_cases [OF set] show ?case by simp
next
  case (assigned fc p fc' ws)
  with setter_cases [OF assigned.hyps(2)] show ?case by simp
qed

lemma init_loop_saved:
  assumes "\<forall>f \<in> set feats. rebuilds f" and "map fst fs = [0 ..< i]"
  shows "init_loop (map saved_feature feats) i (i, fs) =
           Inr (i + length feats, fs @ zip [i ..< i + length feats] feats)"
  using assms
proof (induction feats arbitrary: i fs)
  case Nil
  show ?case by simp
next
  case (Cons f feats)
  from Cons.prems(1) have "rebuilds f" by simp
  then obtain cls where cls: "dispatch (JStr (type (geometry f))) = Inr cls"
    "cls (coordinates (geometry f)) = Inr (geometry f)"
    by (auto simp: rebuilds_def bindE_eq_Inr)
  have fresh: "i \<notin> fst ` set fs"
    using Cons.prems(2) by (metis set_map atLeastLessThan_iff set_upt less_irrefl)
  then have upd: "AList.update i f fs = fs @ [(i, f)]" by (rule update_fresh)
  have keys: "map fst (fs @ [(i, f)]) = [0 ..< Suc i]"
    using Cons.prems(2) by simp
  have eta: "\<lparr>geometry = geometry f, properties = properties f\<rparr> = f"
    by (cases f) simp
  have step: "init_loop (map saved_feature (f # feats)) i (i, fs) =
      init_loop (map saved_feature feats) (Suc i) (Suc i, fs @ [(i, f)])"
    using cls by (simp add: saved_feature_def eta upd)
  have rest: "init_loop (map saved_feature feats) (Suc i) (Suc i, fs @ [(i, f)]) =
      Inr (Suc i + length feats, (fs @ [(i, f)]) @ zip [Suc i ..< Suc i + length feats] feats)"
    using Cons.prems(1) by (intro Cons.IH [OF _ keys]) simp
  have "[i ..< i + length (f # feats)] = i # [Suc i ..< Suc i + length feats]"
    by (simp add: upt_conv_Cons del: upt_Suc)
  then have z: "zip [i ..< i + length (f # feats)] (f # feats) =
      (i, f) # zip [Suc i ..< Suc i + length feats] feats"
    by (simp only: zip_Cons_Cons)
  have "i + length (f # feats) = Suc i + length feats" by simp
  with step rest z show ?case
    by (simp only: append_assoc append_Cons append_Nil)
qed

lemma saveAsGeoJson_reachable:
  assumes "reachable fc"
  shows "saveAsGeoJson fc =
     Inr (JObj [(''type'', JStr ''FeatureCollection''),
                (''features'', JArr (map saved_feature (map snd (features fc))))])"
proof -
  note keys = reachable_keys [OF assms]
  from all_features_in_order [OF keys]
  have "mapE (\<lambda>fi. bindE (features_get fc fi) (\<lambda>feature. Inr (saved_feature feature)))
      [0 ..< n_features fc] = Inr (map saved_feature (map snd (features fc)))"
    by (rule mapE_then)
  then show ?thesis
    by (simp add: saveAsGeoJson_def keys saved_feature_def)
qed

lemma zip_keys:
  assumes "map fst fs = [0 ..< n]"
  shows "zip [0 ..< n] (map snd fs) = fs"
proof -
  have "zip (map fst fs) (map snd fs) = fs" by (simp add: zip_map_fst_snd)
  with assms show ?thesis by simp
qed

lemma load_saved:
  assumes "reachable fc"
  shows "FeatureCollection_init
     (JObj [(''type'', JStr ''FeatureCollection''),
            (''features'', JArr (map saved_feature (map snd (features fc))))]) None
     = Inr (fc\<lparr>private_idVariable := Some None\<rparr>, [])"
proof -
  note keys = reachable_keys [OF assms]
  then have len: "length (features fc) = n_features fc"
    by (metis length_map length_upt diff_zero)
  have r: "\<forall>f \<in> set (map snd (features fc)). rebuilds f"
    using reachable_rebuilds [OF assms] by auto
  have "init_loop (map saved_feature (map snd (features fc))) 0 (0, []) =
      Inr (0 + length (map snd (features fc)),
           [] @ zip [0 ..< 0 + length (map snd (features fc))] (map snd (features fc)))"
    by (rule init_loop_saved [OF r]) simp
  then have "init_loop (map saved_feature (map snd (features fc))) 0 (0, []) =
      Inr (n_features fc, features fc)"
    using len zip_keys [OF keys] by simp
  then show ?thesis
    by (simp add: FeatureCollection_init_def idVariable_setter_def)
qed

section \<open>Payloads of coordinate pairs are constructed\<close>

text \<open>
  The variants other than Point are constructed from every payload of their shape whose
  positions are coordinate pairs and whose sequences of positions are not empty.
\<close>

lemma ring_bbox_ring_of:
  assumes "ps \<noteq> []"
  shows "ring_bbox (ring_of ps) =
     Inr (Min (fst ` set ps), Min (snd ` set ps), Max (fst ` set ps), Max (snd ` set ps))"
proof -
  let ?cs = "map (\<lambda>p. JArr [JNum (fst p), JNum (snd p)]) ps"
  have "py_iter (ring_of ps) = Inr ?cs" by (simp add: ring_of_def)
  moreover have "?cs \<noteq> []" using assms by simp
  moreover have "list_all2 (\<lambda>c x. \<exists>v. py_index c 0 = Inr v \<and> num_of v = Inr x) ?cs (map fst ps)"
    by (simp add: list_all2_conv_all_nth)
  moreover have "list_all2 (\<lambda>c y. \<exists>v. py_index c 1 = Inr v \<and> num_of v = Inr y) ?cs (map snd ps)"
    by (simp add: list_all2_conv_all_nth)
  ultimately show ?thesis
    unfolding ring_bbox_eq_Inr by (intro exI [of _ ?cs] exI [of _ "map fst ps"]
        exI [of _ "map snd ps"]) simp
qed

lemma list_all2_ex:
  assumes "\<forall>x \<in> set xs. \<exists>y. P x y"
  shows "\<exists>ys. list_all2 P xs ys"
  using assms
proof (induction xs)
  case Nil
  show ?case by simp
next
  case (Cons x xs)
  then obtain y ys where "P x y" "list_all2 P xs ys" by auto
  then have "list_all2 P (x # xs) (y # ys)" by simp
  then show ?case by blast
qed

lemma rings_have_boxes:
  assumes "\<forall>ps \<in> set rings. ps \<noteq> []"
  shows "\<exists>boxes. list_all2 (\<lambda>ring b. ring_bbox ring = Inr b) (map ring_of rings) boxes"
proof -
  let ?box = "\<lambda>ps. (Min (fst ` set ps), Min (snd ` set ps), Max (fst ` set ps), Max (snd ` set ps))"
  have "list_all2 (\<lambda>ring b. ring_bbox ring = Inr b) (map ring_of rings) (map ?box rings)"
    using assms by (simp add: list_all2_conv_all_nth ring_bbox_ring_of)
  then show ?thesis by blast
qed

lemma LineString_constructs:
  assumes "ps \<noteq> []"
  shows "\<exists>g. LineString (ring_of ps) = Inr g"
  using ring_bbox_ring_of [OF assms] by (simp add: LineString_def LineString_build_bbox_def)

lemma Polygon_constructs:
  assumes "\<forall>ps \<in> set rings. ps \<noteq> []"
  shows "\<exists>g. Polygon (JArr (map ring_of rings)) = Inr g"
proof -
  from rings_have_boxes [OF assms] obtain boxes where
    "list_all2 (\<lambda>ring b. ring_bbox ring = Inr b) (map ring_of rings) boxes" by blast
  then have "rings_loop (map ring_of rings) (sentinel, []) = Inr (fold join boxes sentinel, map list4 boxes)"
    by (auto simp: rings_loop_eq_Inr)
  then show ?thesis
    by (simp add: Polygon_def Polygon_build_bbox_def)
qed

lemma MultiLineString_constructs:
  assumes "\<forall>ps \<in> set ls. ps \<noteq> []"
  shows "\<exists>g. MultiLineString (JArr (map ring_of ls)) = Inr g"
proof -
  from rings_have_boxes [OF assms] obtain boxes where
    "list_all2 (\<lambda>ring b. ring_bbox ring = Inr b) (map ring_of ls) boxes" by blast
  then have "lines_loop (map ring_of ls) sentinel = Inr (fold join boxes sentinel)"
    by (auto simp: lines_loop_eq_Inr)
  then show ?thesis
    by (simp add: MultiLineString_def MultiLineString_build_bbox_def)
qed

lemma MultiPolygon_constructs:
  assumes "\<forall>rings \<in> set polys. \<forall>ps \<in> set rings. ps \<noteq> []"
  shows "\<exists>g. MultiPolygon (JArr (map (\<lambda>rings. JArr (map ring_of rings)) polys)) = Inr g"
proof -
  let ?P = "\<lambda>poly boxes. \<exists>rings. py_iter poly = Inr rings \<and>
      list_all2 (\<lambda>ring b. ring_bbox ring = Inr b) rings boxes"
  have "\<exists>boxes. ?P (JArr (map ring_of rings)) boxes" if "rings \<in> set polys" for rings
    using rings_have_boxes [of rings] assms that by auto
  then have "\<forall>poly \<in> set (map (\<lambda>rings. JArr (map ring_of rings)) polys). \<exists>boxes. ?P poly boxes"
    by auto
  from list_all2_ex [OF this] obtain boxess where
    "list_all2 ?P (map (\<lambda>rings. JArr (map ring_of rings)) polys) boxess"
    by blast
  then have "\<exists>acc. polygons_loop (map (\<lambda>rings. JArr (map ring_of rings)) polys) (sentinel, []) = Inr acc"
    using polygons_loop_eq_Inr by blast
  then show ?thesis
    by (auto simp: MultiPolygon_def MultiPolygon_build_bbox_def)
qed

lemma MultiPoint_constructs:
  assumes "ps \<noteq> []"
  shows "\<exists>g. MultiPoint (ring_of ps) = Inr g"
proof -
  let ?points = "map (\<lambda>p. JArr [JNum (fst p), JNum (snd p)]) ps"
  let ?rows = "map (\<lambda>p. [JNum (fst p), JNum (snd p)]) ps"
  let ?m = "map (\<lambda>p. [fst p, snd p]) ps"
  have rows: "those (map elements ?points) = Some ?rows"
    by (induction ps) simp_all
  have len: "\<forall>row \<in> set ?rows. length row = length (hd ?rows)"
    using assms by (cases ps) auto
  have "mapE (mapE num_of) ?rows = Inr ?m" "mapE (mapE float64_of) ?rows = Inr ?m"
    by (induction ps) simp_all
  with rows len have "np_array_points ?points = Inr ?m"
    unfolding np_array_points_def by simp
  moreover have "?m \<noteq> []" using assms by simp
  ultimately show ?thesis
    by (simp add: MultiPoint_def MultiPoint_build_bbox_def ring_of_def np_min_axis0_def
        np_max_axis0_def)
qed

section \<open>The array of a column\<close>







lemma reachable_has_column:
  assumes "reachable fc" and "idVariable_getter fc = Inr (Some k)"
  shows "\<exists>col. getPropertiesAsLists fc [Some k] = Inr (map (\<lambda>v. [v]) col)"
proof -
  from assms(2) have "private_idVariable fc = Some (Some k)"
    by (simp add: idVariable_getter_def split: option.splits)
  from reachable_column [OF assms(1) this] obtain rows where
    "getPropertiesAsLists fc [Some k] = Inr rows"
    by (auto simp: getPropertiesAsArray_def bindE_eq_Inr)
  with getPropertiesAsLists_column [OF this] show ?thesis by blast
qed


lemma small_int_exact:
  assumes "\<bar>i\<bar> \<le> 9007199254740992"
  shows "exact_number (JInt i)"
  using assms to_float64_exact [of i] by (auto simp: int64_def)

section \<open>Empty coordinate sequences\<close>

text \<open>
  C5 (as amended). A Polygon, a MultiPolygon and a MultiLineString constructed from an
  empty coordinate sequence are constructed without an exception, and their bbox is the
  sentinel \<open>[+inf, +inf, -inf, -inf]\<close>; in particular a Polygon with zero rings has
  that bbox.
\<close>

theorem empty_union_variants_sentinel:
  "Polygon (JArr []) =
     Inr \<lparr>coordinates = JArr [], bbox = JArr [JNum PInf, JNum PInf, JNum NInf, JNum NInf],
          bboxes = Some (JArr []), type = ''Polygon''\<rparr>
   \<and> MultiPolygon (JArr []) =
     Inr \<lparr>coordinates = JArr [], bbox = JArr [JNum PInf, JNum PInf, JNum NInf, JNum NInf],
          bboxes = Some (JArr []), type = ''MultiPolygon''\<rparr>
   \<and> MultiLineString (JArr []) =
     Inr \<lparr>coordinates = JArr [], bbox = JArr [JNum PInf, JNum PInf, JNum NInf, JNum NInf],
          bboxes = None, type = ''MultiLineString''\<rparr>"
  by (simp add: Polygon_def Polygon_build_bbox_def MultiPolygon_def MultiPolygon_build_bbox_def
      MultiLineString_def MultiLineString_build_bbox_def sentinel_def list4_def)

text \<open>
  C5 as stated fails for a LineString: \<^verbatim>\<open>ring_bbox\<close> takes \<^verbatim>\<open>min\<close> of an empty
  list, which raises \<^verbatim>\<open>ValueError\<close>.
\<close>

theorem empty_LineString_raises: "LineString (JArr []) = Inl ValueError"
  by (simp add: LineString_def LineString_build_bbox_def ring_bbox_def py_min_def)

text \<open>
  The two other variants on the empty sequence: numpy's reduction of an array without
  rows raises, and a Point's bbox is its coordinates, here the empty list.
\<close>

lemma empty_MultiPoint_raises: "MultiPoint (JArr []) = Inl ValueError"
  by (simp add: MultiPoint_def MultiPoint_build_bbox_def np_array_points_def np_min_axis0_def)

lemma empty_Point_bbox:
  "Point (JArr []) = Inr \<lparr>coordinates = JArr [], bbox = JArr [], bboxes = None, type = ''Point''\<rparr>"
  by (simp add: Point_def)

section \<open>The setter of idVariable\<close>







section \<open>Selecting with an empty list of values\<close>

text \<open>
  C9. On a collection a program can hold, \<^verbatim>\<open>getFeatures\<close> and \<^verbatim>\<open>getGeometries\<close>
  with an empty list of values give all features, respectively all geometries, in the
  order of the ids \<open>0, ..., n_features - 1\<close>, as they do when the argument is omitted.
\<close>

theorem empty_args_select_all:
  assumes "reachable fc"
  shows "getFeatures fc (Some []) = Inr (map snd (features fc))
       \<and> getFeatures fc None = Inr (map snd (features fc))
       \<and> getGeometries fc (Some []) = Inr (map (\<lambda>kv. geometry (snd kv)) (features fc))
       \<and> getGeometries fc None = Inr (map (\<lambda>kv. geometry (snd kv)) (features fc))
       \<and> map fst (features fc) = [0 ..< n_features fc]"
proof -
  note keys = reachable_keys [OF assms]
  note all = all_features_in_order [OF keys]
  have "mapE (\<lambda>i. bindE (features_get fc i) (\<lambda>f. Inr (geometry f))) [0 ..< n_features fc]
      = Inr (map geometry (map snd (features fc)))"
    by (rule mapE_then [OF all])
  with all keys show ?thesis
    by (simp add: getFeatures_def getGeometries_def select_ids_def comp_def)
qed

theorem empty_args_select_all_witness:
  "getFeatures (three_points_fc (Some (Some ''id''))) (Some [])
     = Inr [point_feature 0 0 (JNum (Fin 10)), point_feature 1 1 (JNum (Fin 20)),
            point_feature 2 2 (JNum (Fin 30))]"
proof -
  have "reachable (three_points_fc (Some (Some ''id'')))"
    by (rule reachable.constructed [OF three_points_init])
  from empty_args_select_all [OF this] show ?thesis
    by (simp add: three_points_fc_def)
qed

section \<open>Looking up ids by the values of idVariable\<close>







section \<open>The bbox encloses the coordinates\<close>




section \<open>The bbox of a MultiPolygon\<close>



section \<open>Unknown geometry types\<close>

text \<open>
  C6 (as amended). When the input feature sequence contains a record whose geometry type
  tag is a string outside the six, the constructor fails and returns no collection. When
  the records before this one are constructed without an exception, the failure is the
  \<^verbatim>\<open>KeyError\<close> on that tag (the spec's UnknownGeometryType) if the geometry of the
  record has a member \<^verbatim>\<open>coordinates\<close>, and the \<^verbatim>\<open>KeyError\<close> on
  \<^verbatim>\<open>'coordinates'\<close> if it has none.
\<close>

theorem unknown_type_aborts_construction:
  assumes "py_get data (Some ''features'') = Inr fs" and "py_iter fs = Inr (pre @ bad # post)"
    and "py_get bad (Some ''geometry'') = Inr gm" and "py_get gm (Some ''type'') = Inr (JStr t)"
    and "t \<notin> {''Point'', ''MultiPoint'', ''LineString'', ''MultiLineString'', ''Polygon'',
               ''MultiPolygon''}"
  shows "(\<exists>e. FeatureCollection_init data idVariable = Inl e) \<and>
         ((\<exists>acc. init_loop pre 0 (0, []) = Inr acc) \<and>
          (\<exists>c. py_get gm (Some ''coordinates'') = Inr c) \<longrightarrow>
            FeatureCollection_init data idVariable = Inl (KeyError (JStr t))) \<and>
         ((\<exists>acc. init_loop pre 0 (0, []) = Inr acc) \<and>
          (\<forall>c. py_get gm (Some ''coordinates'') \<noteq> Inr c) \<longrightarrow>
            FeatureCollection_init data idVariable = Inl (KeyError (JStr ''coordinates'')))"
proof -
  from assms(5) have none: "geometryDispatcher t = None" unfolding dispatcher_None .
  note bad = init_loop_unknown_type [OF assms(3,4) none]
  let ?e = "case py_get gm (Some ''coordinates'') of Inl e \<Rightarrow> e | Inr c \<Rightarrow> KeyError (JStr t)"
  have loop: "init_loop (pre @ bad # post) 0 (0, []) =
      bindE (init_loop pre 0 (0, [])) (\<lambda>acc'. Inl ?e)"
    by (simp add: init_loop_append bad)
  have init: "FeatureCollection_init data idVariable =
      bindE (init_loop pre 0 (0, [])) (\<lambda>acc'. Inl ?e)"
    using assms(1,2) by (simp add: FeatureCollection_init_def loop bindE_assoc)
  have fails: "\<exists>e. FeatureCollection_init data idVariable = Inl e"
    unfolding init by (cases "init_loop pre 0 (0, [])") auto
  have found: "FeatureCollection_init data idVariable = Inl (KeyError (JStr t))"
    if "init_loop pre 0 (0, []) = Inr acc" "py_get gm (Some ''coordinates'') = Inr c" for acc c
    unfolding init using that by simp
  have missing: "FeatureCollection_init data idVariable = Inl (KeyError (JStr ''coordinates''))"
    if "init_loop pre 0 (0, []) = Inr acc" "\<forall>c. py_get gm (Some ''coordinates'') \<noteq> Inr c" for acc
  proof -
    from that(2) missing_coordinates [OF assms(4)]
    have "py_get gm (Some ''coordinates'') = Inl (KeyError (JStr ''coordinates''))" by blast
    with that(1) show ?thesis unfolding init by simp
  qed
  from fails found missing show ?thesis by blast
qed

theorem unknown_type_aborts_construction_witness:
  "FeatureCollection_init point_then_circle None = Inl (KeyError (JStr ''Circle''))"
proof -
  have f: "py_get point_then_circle (Some ''features'')
      = Inr (JArr [point_record 0 0 (JNum (Fin 1)), circle_record])"
    by (simp add: point_then_circle_def)
  have i: "py_iter (JArr [point_record 0 0 (JNum (Fin 1)), circle_record])
      = Inr ([point_record 0 0 (JNum (Fin 1))] @ circle_record # [])"
    by simp
  have g: "py_get circle_record (Some ''geometry'')
      = Inr (JObj [(''type'', JStr ''Circle''), (''coordinates'', JArr [JNum (Fin 0), JNum (Fin 0)])])"
    by (simp add: circle_record_def)
  have t: "py_get (JObj [(''type'', JStr ''Circle''), (''coordinates'', JArr [JNum (Fin 0), JNum (Fin 0)])])
      (Some ''type'') = Inr (JStr ''Circle'')"
    by simp
  have c: "\<exists>c. py_get (JObj [(''type'', JStr ''Circle''), (''coordinates'', JArr [JNum (Fin 0), JNum (Fin 0)])])
      (Some ''coordinates'') = Inr c"
    by simp
  have n: "''Circle'' \<notin> {''Point'', ''MultiPoint'', ''LineString'', ''MultiLineString'', ''Polygon'',
               ''MultiPolygon''}"
    by simp
  have p: "\<exists>acc. init_loop [point_record 0 0 (JNum (Fin 1))] 0 (0, []) = Inr acc"
    by (simp add: point_record_def geometryDispatcher_def Point_def)
  from unknown_type_aborts_construction [OF f i g t n, of None] p c show ?thesis
    by blast
qed

text \<open>
  C6 as stated fails when an earlier record fails first: a LineString with an empty
  coordinate sequence before the record of the unknown type makes the constructor fail
  with the \<^verbatim>\<open>ValueError\<close> of \<^verbatim>\<open>min\<close>.
\<close>

theorem unknown_type_after_empty_line_raises_ValueError:
  "FeatureCollection_init empty_line_then_circle None = Inl ValueError"
  by (simp add: empty_line_then_circle_def line_record_def circle_record_def
      FeatureCollection_init_def geometryDispatcher_def LineString_def LineString_build_bbox_def
      ring_bbox_def py_min_def)

section \<open>Round trip\<close>

text \<open>
  C2. For a collection a program can hold, \<^verbatim>\<open>saveAsGeoJson\<close> produces a structure
  from which the constructor builds a collection with the same number of features and,
  for every id, the same geometry type tag, the same coordinates and the same properties.
  The saved structure is an object with the members \<^verbatim>\<open>type\<close> and \<^verbatim>\<open>features\<close>;
  every saved feature has the members \<^verbatim>\<open>type\<close>, \<^verbatim>\<open>geometry\<close> and
  \<^verbatim>\<open>properties\<close>, and its geometry the members \<^verbatim>\<open>type\<close> and
  \<^verbatim>\<open>coordinates\<close>: there is no \<^verbatim>\<open>bbox\<close> member.
\<close>

theorem save_load_round_trip:
  assumes "reachable fc"
  shows "\<exists>saved recs fc'.
     saveAsGeoJson fc = Inr saved \<and>
     FeatureCollection_init saved None = Inr (fc', []) \<and>
     n_features fc' = n_features fc \<and>
     (\<forall>i<n_features fc. \<exists>f f'. features_get fc i = Inr f \<and> features_get fc' i = Inr f' \<and>
         type (geometry f') = type (geometry f) \<and>
         coordinates (geometry f') = coordinates (geometry f) \<and>
         properties f' = properties f) \<and>
     saved = JObj [(''type'', JStr ''FeatureCollection''), (''features'', JArr recs)] \<and>
     (\<forall>r \<in> set recs. \<exists>t c p.
         r = JObj [(''type'', JStr ''Feature''),
                   (''geometry'', JObj [(''type'', JStr t), (''coordinates'', c)]),
                   (''properties'', p)])"
proof -
  let ?recs = "map saved_feature (map snd (features fc))"
  let ?saved = "JObj [(''type'', JStr ''FeatureCollection''), (''features'', JArr ?recs)]"
  let ?fc' = "fc\<lparr>private_idVariable := Some None\<rparr>"
  note keys = reachable_keys [OF assms]
  have s: "saveAsGeoJson fc = Inr ?saved"
    by (rule saveAsGeoJson_reachable [OF assms])
  have l: "FeatureCollection_init ?saved None = Inr (?fc', [])"
    by (rule load_saved [OF assms])
  have same: "\<exists>f f'. features_get fc i = Inr f \<and> features_get ?fc' i = Inr f' \<and>
         type (geometry f') = type (geometry f) \<and>
         coordinates (geometry f') = coordinates (geometry f) \<and>
         properties f' = properties f" if "i < n_features fc" for i
    using features_get_upt [OF keys that] by (simp add: features_get_def)
  have shape: "\<forall>r \<in> set ?recs. \<exists>t c p.
         r = JObj [(''type'', JStr ''Feature''),
                   (''geometry'', JObj [(''type'', JStr t), (''coordinates'', c)]),
                   (''properties'', p)]"
    by (auto simp: saved_feature_def)
  have n: "n_features ?fc' = n_features fc" by simp
  from s l n same shape show ?thesis by blast
qed

theorem save_load_round_trip_witness:
  "\<exists>saved fc' f'.
     saveAsGeoJson (three_points_fc (Some (Some ''id''))) = Inr saved \<and>
     FeatureCollection_init saved None = Inr (fc', []) \<and>
     features_get fc' 1 = Inr f' \<and>
     type (geometry f') = ''Point'' \<and>
     coordinates (geometry f') = JArr [JNum (Fin 1), JNum (Fin 1)] \<and>
     properties f' = JObj [(''id'', JNum (Fin 20))]"
proof -
  let ?fc = "three_points_fc (Some (Some ''id''))"
  have r: "reachable ?fc"
    by (rule reachable.constructed [OF three_points_init])
  have n: "1 < n_features ?fc" by (simp add: three_points_fc_def)
  have g: "features_get ?fc 1 = Inr (point_feature 1 1 (JNum (Fin 20)))"
    by (simp add: three_points_fc_def features_get_def)
  from save_load_round_trip [OF r] obtain saved fc' where
    a: "saveAsGeoJson ?fc = Inr saved" "FeatureCollection_init saved None = Inr (fc', [])" and
    b: "\<forall>i<n_features ?fc. \<exists>f f'. features_get ?fc i = Inr f \<and> features_get fc' i = Inr f' \<and>
         type (geometry f') = type (geometry f) \<and>
         coordinates (geometry f') = coordinates (geometry f) \<and>
         properties f' = properties f"
    by blast
  from b n g obtain f' where "features_get fc' 1 = Inr f'"
    "type (geometry f') = type (geometry (point_feature 1 1 (JNum (Fin 20))))"
    "coordinates (geometry f') = coordinates (geometry (point_feature 1 1 (JNum (Fin 20))))"
    "properties f' = properties (point_feature 1 1 (JNum (Fin 20)))"
    by fastforce
  with a show ?thesis
    by (simp add: point_feature_def)
qed


end
